theory Spec2Isabelle
  imports Complex_Main "HOL-Library.Sublist"
begin

section \<open>Values of the JavaScript runtime\<close>

text \<open>
  A thrown value is an \<open>Error\<close> object: a name and a message. \<open>toString\<close> is
  \<open>Error.prototype.toString\<close>, which a template literal \<open>${error}\<close> calls.
\<close>

datatype exn = Exn (ename: string) (message: string)

definition newError :: "string \<Rightarrow> exn" where
  "newError msg = Exn ''Error'' msg"

definition toString :: "exn \<Rightarrow> string" where
  "toString e =
     (if ename e = [] then message e
      else if message e = [] then ename e
      else ename e @ '': '' @ message e)"

text \<open>\<open>s.includes(pattern)\<close>: the pattern occurs in \<open>s\<close> as a contiguous run of characters.\<close>

fun startsWith :: "'a list \<Rightarrow> 'a list \<Rightarrow> bool" where
  "startsWith s [] = True"
| "startsWith [] (p # ps) = False"
| "startsWith (c # cs) (p # ps) = (c = p \<and> startsWith cs ps)"

fun includesStr :: "'a list \<Rightarrow> 'a list \<Rightarrow> bool" where
  "includesStr [] pattern = (pattern = [])"
| "includesStr (c # cs) pattern = (startsWith (c # cs) pattern \<or> includesStr cs pattern)"

section \<open>Data model\<close>

text \<open>An entry of a directory listing read with \<open>withFileTypes\<close>.\<close>

datatype dirent = Dirent (name: string) (isDirectory: bool)

text \<open>The tree the scanner builds: \<open>{type: "file", name, path}\<close> or
  \<open>{type: "directory", name, children}\<close>.\<close>

datatype node =
    FileNode (nodeName: string) (path: string)
  | DirectoryNode (nodeName: string) (children: "node list")

text \<open>A parsed JSON value. \<open>null\<close> is \<open>JNull\<close>; \<open>undefined\<close>, which is not a JSON value,
  is \<open>None\<close> of \<open>json option\<close> wherever a property is read.\<close>

datatype json =
    JNull
  | JBool bool
  | JNum real
  | JStr string
  | JArr "json list"
  | JObj "(string \<times> json) list"

text \<open>The truthiness test of \<open>if (v)\<close>, \<open>v || w\<close> and \<open>v ? a : b\<close>.\<close>

fun truthy :: "json \<Rightarrow> bool" where
  "truthy JNull = False"
| "truthy (JBool b) = b"
| "truthy (JNum r) = (r \<noteq> 0)"
| "truthy (JStr s) = (s \<noteq> [])"
| "truthy (JArr vs) = True"
| "truthy (JObj kvs) = True"

record templateSection =
  sectionName :: string
  sectionDescription :: string
  required :: bool

record projectData =
  projectName :: json
  description :: json
  version :: json
  author :: json
  license :: json
  homepage :: json
  repository :: json
  scripts :: json
  dependencies :: "string list"
  devDependencies :: "string list"
  detectedTechnologies :: "string list"
  configFiles :: "string list"
  directoryStructure :: node
  directoryStructureFormatted :: string
  rootFiles :: "string list"

record analysis =
  template :: "templateSection list"
  projectData :: projectData

section \<open>The host: file system, path library and JavaScript built-ins\<close>

text \<open>
  \<open>readdir\<close> and \<open>readFile\<close> of \<open>fs/promises\<close>, \<open>join\<close> and \<open>parse(p).base\<close> of \<open>path\<close>,
  \<open>JSON.parse\<close>, \<open>JSON.stringify\<close>, \<open>Object.keys\<close>, property reads and the conversion of
  a value to a string are not code of the repository: they are fields of a host record,
  and every theorem holds for every host. \<open>readdir\<close> is the listing with
  \<open>withFileTypes\<close>, which the scanner reads; \<open>readdirNames\<close> is the listing of names
  alone, which \<open>analyzeProject\<close> reads after the scan in a call of its own. The two
  are separate fields: the second may fail, or list other names, where the first
  succeeded. \<open>Inl e\<close> is a promise rejected with \<open>e\<close>, or an exception \<open>e\<close>.
\<close>

record host =
  readdir :: "string \<Rightarrow> exn + dirent list"
  readdirNames :: "string \<Rightarrow> exn + string list"
  readFile :: "string \<Rightarrow> exn + string"
  join :: "string \<Rightarrow> string \<Rightarrow> string"
  base :: "string \<Rightarrow> string"
  jsonParse :: "string \<Rightarrow> exn + json"
  getProp :: "json \<Rightarrow> string \<Rightarrow> json option"
  objectKeys :: "json \<Rightarrow> string list"
  toStr :: "json \<Rightarrow> string"
  jsonStringify :: "json \<Rightarrow> string"
  stringifyStructure :: "node option \<Rightarrow> string"
  stringifyAnalysis :: "analysis \<Rightarrow> string"

text \<open>
  On a file system that does not change while a call runs, the second listing of a
  path gives the names of the entries the first listing gave, or fails as it did.
\<close>

definition unchanged :: "host \<Rightarrow> string \<Rightarrow> bool" where
  "unchanged h dirPath =
     (readdirNames h dirPath
      = (case readdir h dirPath of Inl e \<Rightarrow> Inl e | Inr entries \<Rightarrow> Inr (map name entries)))"

section \<open>The directory scanner\<close>

definition defaultIgnorePatterns :: "string list" where
  "defaultIgnorePatterns =
     [''node_modules'', ''.git'', ''dist'', ''build'', ''.next'', ''coverage'']"

text \<open>\<open>ignorePatterns.some((pattern) => entryName.includes(pattern))\<close>.\<close>

definition ignored :: "string list \<Rightarrow> string \<Rightarrow> bool" where
  "ignored ignorePatterns entryName =
     list_ex (\<lambda>pattern. includesStr entryName pattern) ignorePatterns"

text \<open>
  The body of the \<open>for (const entry of entries)\<close> loop of \<open>getDirectoryStructure\<close>, with the
  recursive call passed as \<open>recurse\<close>. The accumulator is \<open>structure.children\<close>; an
  exception of the recursive call leaves the loop.
\<close>

fun scanEntries ::
  "host \<Rightarrow> (string \<Rightarrow> exn + node option) \<Rightarrow> string \<Rightarrow> string list
     \<Rightarrow> dirent list \<Rightarrow> node list \<Rightarrow> exn + node list" where
  "scanEntries h recurse dirPath ignorePatterns [] acc = Inr acc"
| "scanEntries h recurse dirPath ignorePatterns (entry # entries) acc =
     (if ignored ignorePatterns (name entry)
      then scanEntries h recurse dirPath ignorePatterns entries acc
      else let fullPath = join h dirPath (name entry) in
        if isDirectory entry then
          (case recurse fullPath of
             Inl e \<Rightarrow> Inl e
           | Inr None \<Rightarrow> scanEntries h recurse dirPath ignorePatterns entries acc
           | Inr (Some subStructure) \<Rightarrow>
               scanEntries h recurse dirPath ignorePatterns entries (acc @ [subStructure]))
        else scanEntries h recurse dirPath ignorePatterns entries
               (acc @ [FileNode (name entry) fullPath]))"

definition failedToRead :: "exn \<Rightarrow> exn" where
  "failedToRead e = newError (''Failed to read directory: '' @ toString e)"

text \<open>\<open>parse(dirPath).base || dirPath\<close>: the empty string is falsy.\<close>

definition structureName :: "host \<Rightarrow> string \<Rightarrow> string" where
  "structureName h dirPath = (if base h dirPath = [] then dirPath else base h dirPath)"

text \<open>
  \<open>getDirectoryStructure(dirPath, maxDepth, currentDepth, ignorePatterns)\<close>. The two
  depths are JavaScript numbers, compared as they are, with no rounding: they are
  real numbers here, so a bound such as 0.5 or 2.5 is an input like any other (the
  values \<open>NaN\<close> and \<open>Infinity\<close>, which no finite JSON number gives, are left out). The
  result \<open>Inr None\<close> is \<open>null\<close>. The \<open>try\<close> block holds the listing and the whole loop,
  so an exception of a nested call is wrapped again on its way out. The recursion
  ends because \<open>maxDepth - currentDepth\<close>, rounded up, shrinks with every call.
\<close>

function getDirectoryStructure ::
  "host \<Rightarrow> string \<Rightarrow> real \<Rightarrow> real \<Rightarrow> string list \<Rightarrow> exn + node option" where
  "getDirectoryStructure h dirPath maxDepth currentDepth ignorePatterns =
     (if currentDepth \<ge> maxDepth then Inr None
      else case readdir h dirPath of
        Inl e \<Rightarrow> Inl (failedToRead e)
      | Inr entries \<Rightarrow>
          (case scanEntries h
                  (\<lambda>fullPath. getDirectoryStructure h fullPath maxDepth (currentDepth + 1)
                                 ignorePatterns)
                  dirPath ignorePatterns entries [] of
             Inl e \<Rightarrow> Inl (failedToRead e)
           | Inr cs \<Rightarrow> Inr (Some (DirectoryNode (structureName h dirPath) cs))))"
  by pat_completeness auto
termination
proof (relation "measure (\<lambda>(h, dirPath, maxDepth, currentDepth, ignorePatterns).
                   nat \<lceil>maxDepth - currentDepth\<rceil>)")
  show "wf (measure (\<lambda>(h, dirPath, maxDepth, currentDepth, ignorePatterns).
                   nat \<lceil>maxDepth - currentDepth\<rceil>))"
    by simp
next
  fix h :: host and dirPath fullPath :: string and maxDepth currentDepth :: real
    and ignorePatterns :: "string list" and entries :: "dirent list"
  assume "\<not> maxDepth \<le> currentDepth"
  then have "0 < \<lceil>maxDepth - currentDepth\<rceil>"
    and "\<lceil>maxDepth - (currentDepth + 1)\<rceil> = \<lceil>maxDepth - currentDepth\<rceil> - 1"
    by linarith+
  then show "((h, fullPath, maxDepth, currentDepth + 1, ignorePatterns),
              (h, dirPath, maxDepth, currentDepth, ignorePatterns))
             \<in> measure (\<lambda>(h, dirPath, maxDepth, currentDepth, ignorePatterns).
                   nat \<lceil>maxDepth - currentDepth\<rceil>)"
    by simp
qed

declare getDirectoryStructure.simps [simp del]

section \<open>Rendering the tree as text\<close>

definition newline :: string where
  "newline = [CHR 0x0A]"

text \<open>\<open>s.repeat(n)\<close>.\<close>

definition repeat :: "string \<Rightarrow> nat \<Rightarrow> string" where
  "repeat s n = concat (replicate n s)"

text \<open>
  \<open>formatDirectoryStructure(node, depth)\<close>: \<open>result\<close> starts with the line of the node
  itself and the loop appends the text of each child at \<open>depth + 1\<close>.
\<close>

fun formatDirectoryStructure :: "node \<Rightarrow> nat \<Rightarrow> string" where
  "formatDirectoryStructure (DirectoryNode nm cs) depth =
     foldl (\<lambda>result child. result @ formatDirectoryStructure child (depth + 1))
       (repeat ''  '' depth @ nm @ ''/'' @ newline) cs"
| "formatDirectoryStructure (FileNode nm p) depth = repeat ''  '' depth @ nm @ newline"

section \<open>The project analyzer\<close>

definition README_TEMPLATE :: "templateSection list" where
  "README_TEMPLATE =
     [\<lparr>sectionName = ''Project Title'',
       sectionDescription = ''The main title/name of the project'', required = True\<rparr>,
      \<lparr>sectionName = ''Description'',
       sectionDescription = ''A brief overview of what the project does'', required = True\<rparr>,
      \<lparr>sectionName = ''Features'',
       sectionDescription = ''Key features and capabilities of the project'',
       required = False\<rparr>,
      \<lparr>sectionName = ''Installation'',
       sectionDescription = ''Steps to install and set up the project'', required = True\<rparr>,
      \<lparr>sectionName = ''Usage'',
       sectionDescription = ''How to use the project, including examples'', required = True\<rparr>,
      \<lparr>sectionName = ''Project Structure'',
       sectionDescription = ''Directory/file structure overview'', required = False\<rparr>,
      \<lparr>sectionName = ''Technologies Used'',
       sectionDescription = ''List of technologies, frameworks, and tools used'',
       required = False\<rparr>,
      \<lparr>sectionName = ''Configuration'',
       sectionDescription = ''Configuration options, environment variables, etc.'',
       required = False\<rparr>,
      \<lparr>sectionName = ''Contributing'',
       sectionDescription = ''Guidelines for contributing to the project'',
       required = False\<rparr>,
      \<lparr>sectionName = ''License'',
       sectionDescription = ''License information'', required = False\<rparr>]"

definition failedToAnalyze :: "exn \<Rightarrow> exn" where
  "failedToAnalyze e = newError (''Failed to analyze project: '' @ toString e)"

text \<open>
  The inner \<open>try\<close> of \<open>analyzeProject\<close>: \<open>packageJson\<close> starts as \<open>null\<close> and stays so when
  the file cannot be read or its text cannot be parsed; the \<open>catch\<close> is empty.
\<close>

definition readPackageJson :: "host \<Rightarrow> string \<Rightarrow> json" where
  "readPackageJson h projectPath =
     (case readFile h (join h projectPath ''package.json'') of
        Inl e \<Rightarrow> JNull
      | Inr packageContent \<Rightarrow>
          (case jsonParse h packageContent of Inl e \<Rightarrow> JNull | Inr v \<Rightarrow> v))"

text \<open>\<open>if (files.includes(marker)) list.push(label)\<close>.\<close>

definition pushIfIncludes :: "string list \<Rightarrow> string \<Rightarrow> string \<Rightarrow> string list \<Rightarrow> string list" where
  "pushIfIncludes files marker label list =
     (if marker \<in> set files then list @ [label] else list)"

text \<open>The nine tests of \<open>analyzeProject\<close> in their order, as they fill
  \<open>detectedTechnologies\<close>.\<close>

definition detectTechnologies :: "string list \<Rightarrow> string list" where
  "detectTechnologies files =
     (pushIfIncludes files ''Dockerfile'' ''Docker''
     (pushIfIncludes files ''build.gradle'' ''Java/Gradle''
     (pushIfIncludes files ''pom.xml'' ''Java''
     (pushIfIncludes files ''go.mod'' ''Go''
     (pushIfIncludes files ''Cargo.toml'' ''Rust''
     (pushIfIncludes files ''setup.py'' ''Python''
     (pushIfIncludes files ''requirements.txt'' ''Python''
     (pushIfIncludes files ''tsconfig.json'' ''TypeScript''
     (pushIfIncludes files ''package.json'' ''Node.js'' [])))))))))"

text \<open>The same tests as they fill \<open>configFiles\<close>, and the tenth for the environment
  template: \<open>files.find((f) => f === ".env.example") || ".env.template"\<close>.\<close>

definition detectConfigFiles :: "string list \<Rightarrow> string list" where
  "detectConfigFiles files =
     (let configs =
        (pushIfIncludes files ''Dockerfile'' ''Dockerfile''
        (pushIfIncludes files ''build.gradle'' ''build.gradle''
        (pushIfIncludes files ''pom.xml'' ''pom.xml''
        (pushIfIncludes files ''go.mod'' ''go.mod''
        (pushIfIncludes files ''Cargo.toml'' ''Cargo.toml''
        (pushIfIncludes files ''setup.py'' ''setup.py''
        (pushIfIncludes files ''requirements.txt'' ''requirements.txt''
        (pushIfIncludes files ''tsconfig.json'' ''tsconfig.json''
        (pushIfIncludes files ''package.json'' ''package.json'' [])))))))))
      in if ''.env.example'' \<in> set files \<or> ''.env.template'' \<in> set files
         then configs @ [if ''.env.example'' \<in> set files then ''.env.example''
                         else ''.env.template'']
         else configs)"

text \<open>\<open>packageJson?.key\<close>: \<open>undefined\<close> when \<open>packageJson\<close> is \<open>null\<close>, the property
  otherwise.\<close>

definition optField :: "host \<Rightarrow> json \<Rightarrow> string \<Rightarrow> json option" where
  "optField h packageJson key =
     (case packageJson of JNull \<Rightarrow> None | _ \<Rightarrow> getProp h packageJson key)"

text \<open>\<open>x || fallback\<close>.\<close>

definition orElse :: "json option \<Rightarrow> json \<Rightarrow> json" where
  "orElse x fallback =
     (case x of None \<Rightarrow> fallback | Some v \<Rightarrow> if truthy v then v else fallback)"

text \<open>\<open>x ? Object.keys(x) : []\<close>.\<close>

definition keysOrEmpty :: "host \<Rightarrow> json option \<Rightarrow> string list" where
  "keysOrEmpty h x =
     (case x of None \<Rightarrow> [] | Some v \<Rightarrow> if truthy v then objectKeys h v else [])"

definition nullTypeError :: exn where
  "nullTypeError = Exn ''TypeError'' ''Cannot read properties of null (reading 'type')''"

text \<open>
  \<open>analyzeProject(projectPath)\<close>. The scan runs with the default arguments: depth bound 3
  from depth 0 and the default ignore patterns. After the manifest, the root is listed
  a second time, by \<open>readdir(projectPath)\<close> without file types. Every statement is
  inside the outer \<open>try\<close>, so an exception of the scan, of the second listing, or of
  formatting a \<open>null\<close> structure comes out wrapped by \<open>failedToAnalyze\<close>.
\<close>

definition analyzeProject :: "host \<Rightarrow> string \<Rightarrow> exn + analysis" where
  "analyzeProject h projectPath =
     (case getDirectoryStructure h projectPath 3 0 defaultIgnorePatterns of
        Inl e \<Rightarrow> Inl (failedToAnalyze e)
      | Inr structure \<Rightarrow>
          (let packageJson = readPackageJson h projectPath in
           case readdirNames h projectPath of
             Inl e \<Rightarrow> Inl (failedToAnalyze e)
           | Inr files \<Rightarrow>
               (case structure of
                  None \<Rightarrow> Inl (failedToAnalyze nullTypeError)
                | Some dirNode \<Rightarrow>
                    Inr \<lparr> template = README_TEMPLATE,
                          projectData =
                            \<lparr> projectName =
                                orElse (optField h packageJson ''name'') (JStr (base h projectPath)),
                              description = orElse (optField h packageJson ''description'') JNull,
                              version = orElse (optField h packageJson ''version'') JNull,
                              author = orElse (optField h packageJson ''author'') JNull,
                              license = orElse (optField h packageJson ''license'') JNull,
                              homepage = orElse (optField h packageJson ''homepage'') JNull,
                              repository = orElse (optField h packageJson ''repository'') JNull,
                              scripts = orElse (optField h packageJson ''scripts'') (JObj []),
                              dependencies =
                                keysOrEmpty h (optField h packageJson ''dependencies''),
                              devDependencies =
                                keysOrEmpty h (optField h packageJson ''devDependencies''),
                              detectedTechnologies = detectTechnologies files,
                              configFiles = detectConfigFiles files,
                              directoryStructure = dirNode,
                              directoryStructureFormatted = formatDirectoryStructure dirNode 0,
                              rootFiles = files \<rparr> \<rparr>)))"

section \<open>The README renderer\<close>

text \<open>The heading glyphs and the check mark of the badges, as the bytes of the source
  text.\<close>

definition checkMark :: string where
  "checkMark = [CHR 0xC3, CHR 0xA2, CHR 0xC5, CHR 0x93, CHR 0xE2, CHR 0x80, CHR 0x9C]"

definition glyphNote :: string where
  "glyphNote = [CHR 0xC3, CHR 0xB0, CHR 0xC5, CHR 0xB8, CHR 0xE2, CHR 0x80, CHR 0x9C]"

definition glyphTools :: string where
  "glyphTools = [CHR 0xC3, CHR 0xB0, CHR 0xC5, CHR 0xB8, CHR 0xE2, CHR 0x80, CHR 0xBA,
                 CHR 0xC2, CHR 0xA0, CHR 0xC3, CHR 0xAF, CHR 0xC2, CHR 0xB8]"

definition glyphPackage :: string where
  "glyphPackage = [CHR 0xC3, CHR 0xB0, CHR 0xC5, CHR 0xB8, CHR 0xE2, CHR 0x80, CHR 0x9C,
                   CHR 0xC2, CHR 0xA6]"

definition glyphRocket :: string where
  "glyphRocket = [CHR 0xC3, CHR 0xB0, CHR 0xC5, CHR 0xB8, CHR 0xC5, CHR 0xA1, CHR 0xE2,
                  CHR 0x82, CHR 0xAC]"

definition glyphBooks :: string where
  "glyphBooks = [CHR 0xC3, CHR 0xB0, CHR 0xC5, CHR 0xB8, CHR 0xE2, CHR 0x80, CHR 0x9C,
                 CHR 0xC5, CHR 0xA1]"

definition glyphWrench :: string where
  "glyphWrench = [CHR 0xC3, CHR 0xB0, CHR 0xC5, CHR 0xB8, CHR 0xE2, CHR 0x80, CHR 0x9D,
                  CHR 0xC2, CHR 0xA7]"

definition glyphPage :: string where
  "glyphPage = [CHR 0xC3, CHR 0xB0, CHR 0xC5, CHR 0xB8, CHR 0xE2, CHR 0x80, CHR 0x9C,
                CHR 0xE2, CHR 0x80, CHR 0x9E]"

definition glyphPerson :: string where
  "glyphPerson = [CHR 0xC3, CHR 0xB0, CHR 0xC5, CHR 0xB8, CHR 0xE2, CHR 0x80, CHR 0x98,
                  CHR 0xC2, CHR 0xA4]"

definition glyphLink :: string where
  "glyphLink = [CHR 0xC3, CHR 0xB0, CHR 0xC5, CHR 0xB8, CHR 0xE2, CHR 0x80, CHR 0x9D,
                CHR 0xE2, CHR 0x80, CHR 0x94]"

definition glyphHeart :: string where
  "glyphHeart = [CHR 0xC3, CHR 0xA2, CHR 0xC2, CHR 0xA4, CHR 0xC3, CHR 0xAF, CHR 0xC2,
                 CHR 0xB8]"

text \<open>\<open>list.join(separator)\<close>.\<close>

fun joinWith :: "string \<Rightarrow> string list \<Rightarrow> string" where
  "joinWith separator [] = []"
| "joinWith separator [x] = x"
| "joinWith separator (x # y # ys) = x @ separator @ joinWith separator (y # ys)"

text \<open>A value inside a template literal; \<open>undefined\<close> prints as its name.\<close>

definition interpolate :: "host \<Rightarrow> json option \<Rightarrow> string" where
  "interpolate h x = (case x of None \<Rightarrow> ''undefined'' | Some v \<Rightarrow> toStr h v)"

text \<open>\<open>list.forEach((item) => { readme += `- ${item}\n`; })\<close>.\<close>

definition bullets :: "string list \<Rightarrow> string" where
  "bullets items = concat (map (\<lambda>item. ''- '' @ item @ newline) items)"

definition titleSection :: "host \<Rightarrow> projectData \<Rightarrow> string" where
  "titleSection h pd = ''# '' @ toStr h (projectName pd) @ newline @ newline"

definition badgeList :: "host \<Rightarrow> projectData \<Rightarrow> string list" where
  "badgeList h pd =
     (if truthy (version pd)
      then [''![Version](https://img.shields.io/badge/version-'' @ toStr h (version pd)
            @ ''-blue.svg)''] else [])
     @ (if truthy (license pd)
        then [''![License](https://img.shields.io/badge/license-'' @ toStr h (license pd)
              @ ''-green.svg)''] else [])
     @ (if ''Node.js'' \<in> set (detectedTechnologies pd)
        then [''![Node.js](https://img.shields.io/badge/node.js-'' @ checkMark
              @ ''-brightgreen.svg)''] else [])
     @ (if ''TypeScript'' \<in> set (detectedTechnologies pd)
        then [''![TypeScript](https://img.shields.io/badge/typescript-'' @ checkMark
              @ ''-blue.svg)''] else [])
     @ (if ''Python'' \<in> set (detectedTechnologies pd)
        then [''![Python](https://img.shields.io/badge/python-'' @ checkMark
              @ ''-yellow.svg)''] else [])
     @ (if ''Rust'' \<in> set (detectedTechnologies pd)
        then [''![Rust](https://img.shields.io/badge/rust-'' @ checkMark
              @ ''-orange.svg)''] else [])
     @ (if ''Go'' \<in> set (detectedTechnologies pd)
        then [''![Go](https://img.shields.io/badge/go-'' @ checkMark
              @ ''-00ADD8.svg)''] else [])"

definition badgesSection :: "host \<Rightarrow> projectData \<Rightarrow> string" where
  "badgesSection h pd =
     (if length (badgeList h pd) > 0
      then joinWith '' '' (badgeList h pd) @ newline @ newline else [])"

definition descriptionSection :: "host \<Rightarrow> projectData \<Rightarrow> string" where
  "descriptionSection h pd =
     (if truthy (description pd)
      then ''## '' @ glyphNote @ '' Description'' @ newline @ newline
           @ toStr h (description pd) @ newline @ newline
      else [])"

definition technologiesSection :: "projectData \<Rightarrow> string" where
  "technologiesSection pd =
     (if length (detectedTechnologies pd) > 0
      then ''## '' @ glyphTools @ '' Technologies Used'' @ newline @ newline
           @ bullets (detectedTechnologies pd) @ newline
      else [])"

text \<open>The \<open>if\<close> / \<open>else if\<close> chain inside the code block of the Installation section.\<close>

definition installCommand :: "string list \<Rightarrow> string" where
  "installCommand technologies =
     (if ''Node.js'' \<in> set technologies then ''npm install'' @ newline
      else if ''Python'' \<in> set technologies then ''pip install -r requirements.txt'' @ newline
      else if ''Rust'' \<in> set technologies then ''cargo build'' @ newline
      else if ''Go'' \<in> set technologies then ''go mod download'' @ newline
      else [])"

definition installationSection :: "projectData \<Rightarrow> string" where
  "installationSection pd =
     ''## '' @ glyphPackage @ '' Installation'' @ newline @ newline
     @ (if length (dependencies pd) > 0 \<or> length (devDependencies pd) > 0
        then ''```bash'' @ newline
             @ installCommand (detectedTechnologies pd)
             @ ''```'' @ newline @ newline
        else ''Clone the repository and follow the setup instructions.'' @ newline @ newline)"

definition usageSection :: "host \<Rightarrow> projectData \<Rightarrow> string" where
  "usageSection h pd =
     (let scriptKeys = objectKeys h (scripts pd) in
      if length scriptKeys > 0
      then ''## '' @ glyphRocket @ '' Usage'' @ newline @ newline
           @ ''Available scripts:'' @ newline @ newline
           @ concat (map (\<lambda>script.
                 ''```bash'' @ newline @ ''npm run '' @ script @ newline @ ''```'' @ newline
                 @ interpolate h (getProp h (scripts pd) script) @ newline @ newline)
               scriptKeys)
      else [])"

definition structureSection :: "projectData \<Rightarrow> string" where
  "structureSection pd =
     (if directoryStructureFormatted pd \<noteq> []
      then ''## '' @ glyphNote @ '' Project Structure'' @ newline @ newline
           @ ''```'' @ newline @ directoryStructureFormatted pd @ ''```'' @ newline @ newline
      else [])"

definition dependenciesSection :: "projectData \<Rightarrow> string" where
  "dependenciesSection pd =
     (if length (dependencies pd) > 0
      then ''## '' @ glyphBooks @ '' Dependencies'' @ newline @ newline
           @ bullets (dependencies pd) @ newline
      else [])"

definition devDependenciesSection :: "projectData \<Rightarrow> string" where
  "devDependenciesSection pd =
     (if length (devDependencies pd) > 0
      then ''## '' @ glyphWrench @ '' Dev Dependencies'' @ newline @ newline
           @ bullets (devDependencies pd) @ newline
      else [])"

definition licenseSection :: "host \<Rightarrow> projectData \<Rightarrow> string" where
  "licenseSection h pd =
     (if truthy (license pd)
      then ''## '' @ glyphPage @ '' License'' @ newline @ newline
           @ ''This project is licensed under the '' @ toStr h (license pd) @ '' License.''
           @ newline @ newline
      else [])"

text \<open>\<open>typeof author === 'string' ? author : JSON.stringify(author)\<close>.\<close>

definition authorSection :: "host \<Rightarrow> projectData \<Rightarrow> string" where
  "authorSection h pd =
     (if truthy (author pd)
      then ''## '' @ glyphPerson @ '' Author'' @ newline @ newline
           @ (case author pd of JStr s \<Rightarrow> s | v \<Rightarrow> jsonStringify h v) @ newline @ newline
      else [])"

text \<open>\<open>typeof repository === 'string' ? repository : repository.url\<close>.\<close>

definition linksSection :: "host \<Rightarrow> projectData \<Rightarrow> string" where
  "linksSection h pd =
     (if truthy (homepage pd) \<or> truthy (repository pd)
      then ''## '' @ glyphLink @ '' Links'' @ newline @ newline
           @ (if truthy (homepage pd)
              then ''- [Homepage]('' @ toStr h (homepage pd) @ '')'' @ newline else [])
           @ (if truthy (repository pd)
              then ''- [Repository]('' @
                   (case repository pd of
                      JStr s \<Rightarrow> s
                    | v \<Rightarrow> interpolate h (getProp h v ''url''))
                   @ '')'' @ newline
              else [])
           @ newline
      else [])"

definition footerSection :: string where
  "footerSection =
     ''---'' @ newline @ newline
     @ ''*Generated with '' @ glyphHeart @ '' by README Generator MCP Server*'' @ newline"

text \<open>\<open>generateReadme(projectData)\<close>: \<open>readme\<close> grows by one section after the other, in
  this order.\<close>

definition generateReadme :: "host \<Rightarrow> projectData \<Rightarrow> string" where
  "generateReadme h pd =
     titleSection h pd @ badgesSection h pd @ descriptionSection h pd
     @ technologiesSection pd @ installationSection pd @ usageSection h pd
     @ structureSection pd @ dependenciesSection pd @ devDependenciesSection pd
     @ licenseSection h pd @ authorSection h pd @ linksSection h pd @ footerSection"

section \<open>The tool-call handler\<close>

text \<open>
  A request names a tool and carries its arguments, taken with the types of the input
  schema: paths are strings, \<open>maxDepth\<close> is a number, optional, and defaults to 3. \<open>OtherTool\<close> stands for any name that is none of the four tools. A response is
  one text item and the \<open>isError\<close> flag, absent (false) on success.
\<close>

datatype request =
    ReadProjectStructure string "real option"
  | ReadFile string
  | AnalyzeProject string
  | GenerateReadme string
  | OtherTool string

record response =
  responseText :: string
  isError :: bool

text \<open>The \<open>switch\<close> inside the \<open>try\<close> block: the text of the answer, or the exception
  thrown.\<close>

fun callTool :: "host \<Rightarrow> request \<Rightarrow> exn + string" where
  "callTool h (ReadProjectStructure dirPath maxDepth) =
     (case getDirectoryStructure h dirPath (case maxDepth of None \<Rightarrow> 3 | Some d \<Rightarrow> d) 0
             defaultIgnorePatterns of
        Inl e \<Rightarrow> Inl e
      | Inr structure \<Rightarrow> Inr (stringifyStructure h structure))"
| "callTool h (ReadFile filePath) = readFile h filePath"
| "callTool h (AnalyzeProject projectPath) =
     (case analyzeProject h projectPath of
        Inl e \<Rightarrow> Inl e
      | Inr a \<Rightarrow> Inr (stringifyAnalysis h a))"
| "callTool h (GenerateReadme projectPath) =
     (case analyzeProject h projectPath of
        Inl e \<Rightarrow> Inl e
      | Inr a \<Rightarrow> Inr (generateReadme h (projectData a)))"
| "callTool h (OtherTool toolName) = Inl (newError (''Unknown tool: '' @ toolName))"

text \<open>The handler: the \<open>catch\<close> turns every exception into an answer. All exceptions
  here are \<open>Error\<close> objects, so the text is built from \<open>error.message\<close>.\<close>

definition handleCallTool :: "host \<Rightarrow> request \<Rightarrow> response" where
  "handleCallTool h req =
     (case callTool h req of
        Inr t \<Rightarrow> \<lparr> responseText = t, isError = False \<rparr>
      | Inl e \<Rightarrow> \<lparr> responseText = ''Error: '' @ message e, isError = True \<rparr>)"

section \<open>The specification's notions\<close>

subsection \<open>Rows of an indented listing\<close>

text \<open>
  A row is a nesting depth, a name, and whether the name is a directory's. \<open>preorder\<close>
  lists the rows of a tree depth first, a node before its children, the children in
  their order. \<open>renderRow\<close> is the line the specification asks for: two spaces per
  level, the name, \<open>/\<close> after a directory, a newline.
\<close>

type_synonym row = "nat \<times> string \<times> bool"

fun preorder :: "node \<Rightarrow> nat \<Rightarrow> row list" where
  "preorder (FileNode nm p) depth = [(depth, nm, False)]"
| "preorder (DirectoryNode nm cs) depth =
     (depth, nm, True) # concat (map (\<lambda>child. preorder child (depth + 1)) cs)"

definition renderRow :: "row \<Rightarrow> string" where
  "renderRow r =
     (case r of (depth, nm, isDir) \<Rightarrow>
        replicate (2 * depth) CHR '' '' @ nm @ (if isDir then ''/'' else []) @ newline)"

text \<open>
  Reading the indentation back: the text is cut at each newline; in a line the leading
  spaces are counted, two for a level, and a final \<open>/\<close> marks a directory.
\<close>

fun splitLines :: "string \<Rightarrow> string \<Rightarrow> string list" where
  "splitLines line [] = (if line = [] then [] else [line])"
| "splitLines line (c # cs) =
     (if c = CHR 0x0A then line # splitLines [] cs else splitLines (line @ [c]) cs)"

definition parseRow :: "string \<Rightarrow> row" where
  "parseRow line =
     (let spaces = length (takeWhile (\<lambda>c. c = CHR '' '') line);
          rest = drop spaces line
      in if rest \<noteq> [] \<and> last rest = CHR ''/''
         then (spaces div 2, butlast rest, True)
         else (spaces div 2, rest, False))"

definition parseIndented :: "string \<Rightarrow> row list" where
  "parseIndented txt = map parseRow (splitLines [] txt)"

text \<open>
  A name that survives the reading back: no newline in it, no space in front, and, for
  a file, no \<open>/\<close> at the end.
\<close>

definition plainRow :: "row \<Rightarrow> bool" where
  "plainRow r =
     (case r of (depth, nm, isDir) \<Rightarrow>
        CHR 0x0A \<notin> set nm
        \<and> (nm = [] \<or> hd nm \<noteq> CHR '' '')
        \<and> (isDir \<or> nm = [] \<or> last nm \<noteq> CHR ''/''))"

subsection \<open>Depth of a tree\<close>

text \<open>The nesting depth of the deepest node below the root; the root itself is at
  depth 0, as in \<open>formatDirectoryStructure(structure, 0)\<close>.\<close>

fun treeDepth :: "node \<Rightarrow> nat" where
  "treeDepth (FileNode nm p) = 0"
| "treeDepth (DirectoryNode nm cs) = foldr (\<lambda>child d. max (Suc (treeDepth child)) d) cs 0"

text \<open>The names of all nodes of a tree, and of all nodes below its root.\<close>

fun nodeNames :: "node \<Rightarrow> string list" where
  "nodeNames (FileNode nm p) = [nm]"
| "nodeNames (DirectoryNode nm cs) = nm # concat (map nodeNames cs)"

definition namesBelow :: "node \<Rightarrow> string list" where
  "namesBelow t = (case t of FileNode nm p \<Rightarrow> [] | DirectoryNode nm cs \<Rightarrow> concat (map nodeNames cs))"

subsection \<open>What a scan keeps, and where it goes\<close>

text \<open>
  An entry is kept by the scan at \<open>currentDepth\<close> when it is not ignored and, if it is
  a directory, the depth bound lets the scan go into it. \<open>childFor\<close> says that a node
  is the node of an entry: the file node with the entry's name and joined path, or the
  result of the scan of the entry's directory one level down.
\<close>

definition kept :: "string list \<Rightarrow> real \<Rightarrow> real \<Rightarrow> dirent \<Rightarrow> bool" where
  "kept ignorePatterns maxDepth currentDepth entry =
     (\<not> ignored ignorePatterns (name entry)
      \<and> (if isDirectory entry then currentDepth + 1 < maxDepth else True))"

definition childFor ::
  "host \<Rightarrow> string \<Rightarrow> real \<Rightarrow> real \<Rightarrow> string list \<Rightarrow> node \<Rightarrow> dirent \<Rightarrow> bool" where
  "childFor h dirPath maxDepth currentDepth ignorePatterns child entry =
     (if isDirectory entry
      then getDirectoryStructure h (join h dirPath (name entry)) maxDepth (currentDepth + 1)
             ignorePatterns = Inr (Some child)
      else child = FileNode (name entry) (join h dirPath (name entry)))"

text \<open>
  The paths a scan from \<open>start\<close> can reach: \<open>start\<close> itself, and the joined path of
  every directory entry that is not ignored in the listing of a path already reached.
\<close>

inductive_set reachable :: "host \<Rightarrow> string list \<Rightarrow> string \<Rightarrow> string set"
  for h :: host and ignorePatterns :: "string list" and start :: string where
  start: "start \<in> reachable h ignorePatterns start"
| step: "dirPath \<in> reachable h ignorePatterns start \<Longrightarrow> readdir h dirPath = Inr entries
         \<Longrightarrow> entry \<in> set entries \<Longrightarrow> \<not> ignored ignorePatterns (name entry)
         \<Longrightarrow> isDirectory entry
         \<Longrightarrow> join h dirPath (name entry) \<in> reachable h ignorePatterns start"

text \<open>What the scan can see of a listing: the failure, or the entries not ignored.\<close>

definition visible :: "string list \<Rightarrow> exn + dirent list \<Rightarrow> exn + dirent list" where
  "visible ignorePatterns listing =
     (case listing of
        Inl e \<Rightarrow> Inl e
      | Inr entries \<Rightarrow> Inr (filter (\<lambda>entry. \<not> ignored ignorePatterns (name entry)) entries))"

subsection \<open>The marker table and the install priority\<close>

text \<open>The table of the specification: marker file name and technology label, in
  order.\<close>

definition markerTable :: "(string \<times> string) list" where
  "markerTable =
     [(''package.json'', ''Node.js''), (''tsconfig.json'', ''TypeScript''),
      (''requirements.txt'', ''Python''), (''setup.py'', ''Python''),
      (''Cargo.toml'', ''Rust''), (''go.mod'', ''Go''), (''pom.xml'', ''Java''),
      (''build.gradle'', ''Java/Gradle''), (''Dockerfile'', ''Docker'')]"

definition labelsByTable :: "string list \<Rightarrow> string list" where
  "labelsByTable files = map snd (filter (\<lambda>row. fst row \<in> set files) markerTable)"

text \<open>The install commands in the priority order of the specification; at most the
  first one whose technology was detected is printed.\<close>

definition installPriority :: "(string \<times> string) list" where
  "installPriority =
     [(''Node.js'', ''npm install''), (''Python'', ''pip install -r requirements.txt''),
      (''Rust'', ''cargo build''), (''Go'', ''go mod download'')]"

definition installLines :: "string list \<Rightarrow> string list" where
  "installLines technologies =
     map snd (take 1 (filter (\<lambda>row. fst row \<in> set technologies) installPriority))"

section \<open>Example hosts\<close>

text \<open>
  A small project \<open>/p\<close>: a source directory, a dependency directory, and two files;
  an empty directory \<open>/e\<close>; a Go project \<open>/go\<close>; a Python project \<open>/py\<close> with both
  of its marker files. The path functions join with a slash and take the text after
  the last slash.
\<close>

definition joinSlash :: "string \<Rightarrow> string \<Rightarrow> string" where
  "joinSlash a b = a @ ''/'' @ b"

fun lastSegment :: "string \<Rightarrow> string \<Rightarrow> string" where
  "lastSegment seg [] = seg"
| "lastSegment seg (c # cs) = (if c = CHR ''/'' then lastSegment [] cs else lastSegment (seg @ [c]) cs)"

definition enoent :: "string \<Rightarrow> exn" where
  "enoent p = Exn ''Error'' (''ENOENT: no such file or directory, '' @ p)"

definition demoReaddir :: "string \<Rightarrow> exn + dirent list" where
  "demoReaddir p =
     (if p = ''/p'' then
        Inr [Dirent ''node_modules'' True, Dirent ''src'' True,
             Dirent ''package.json'' False, Dirent ''a.txt'' False]
      else if p = ''/p/node_modules'' then Inr [Dirent ''left-pad'' True]
      else if p = ''/p/src'' then Inr [Dirent ''index.ts'' False, Dirent ''lib'' True]
      else if p = ''/p/src/lib'' then Inr [Dirent ''util.ts'' False]
      else if p = ''/e'' then Inr []
      else if p = ''/go'' then Inr [Dirent ''go.mod'' False]
      else if p = ''/py'' then Inr [Dirent ''requirements.txt'' False, Dirent ''setup.py'' False]
      else Inl (enoent p))"

text \<open>The manifest of \<open>/p\<close> is cut off in the middle, so it does not parse; the other
  projects have none.\<close>

definition demoReadFile :: "string \<Rightarrow> exn + string" where
  "demoReadFile p = (if p = ''/p/package.json'' then Inr ''{ '' else Inl (enoent p))"

definition demoJsonParse :: "string \<Rightarrow> exn + json" where
  "demoJsonParse s =
     (if s = ''null'' then Inr JNull
      else Inl (Exn ''SyntaxError'' ''Unexpected end of JSON input''))"

text \<open>The same project after the dependency directory has been removed.\<close>

definition strippedReaddir :: "string \<Rightarrow> exn + dirent list" where
  "strippedReaddir p =
     (if p = ''/p'' then
        Inr [Dirent ''src'' True, Dirent ''package.json'' False, Dirent ''a.txt'' False]
      else if p = ''/p/src'' then Inr [Dirent ''index.ts'' False, Dirent ''lib'' True]
      else if p = ''/p/src/lib'' then Inr [Dirent ''util.ts'' False]
      else Inl (enoent p))"

text \<open>The names of a listing, as the second listing gives them when nothing has
  changed.\<close>

definition namesOf :: "(string \<Rightarrow> exn + dirent list) \<Rightarrow> string \<Rightarrow> exn + string list" where
  "namesOf listing p =
     (case listing p of Inl e \<Rightarrow> Inl e | Inr entries \<Rightarrow> Inr (map name entries))"

definition demoHost :: host where
  "demoHost = \<lparr> readdir = demoReaddir,
                readdirNames = namesOf demoReaddir,
                readFile = demoReadFile,
                join = joinSlash,
                base = lastSegment [],
                jsonParse = demoJsonParse,
                getProp = (\<lambda>v k. case v of JObj kvs \<Rightarrow> map_of kvs k | _ \<Rightarrow> None),
                objectKeys = (\<lambda>v. case v of JObj kvs \<Rightarrow> map fst kvs | _ \<Rightarrow> []),
                toStr = (\<lambda>v. case v of JStr s \<Rightarrow> s | _ \<Rightarrow> ''[object]''),
                jsonStringify = (\<lambda>v. ''{}''),
                stringifyStructure = (\<lambda>t. case t of None \<Rightarrow> ''null'' | Some n \<Rightarrow> formatDirectoryStructure n 0),
                stringifyAnalysis = (\<lambda>a. directoryStructureFormatted (projectData a)) \<rparr>"

text \<open>The same host when the project directories are taken away after the scan has
  read them: the second listing finds nothing.\<close>

definition vanishingHost :: host where
  "vanishingHost = demoHost\<lparr>readdirNames := (\<lambda>p. Inl (enoent p))\<rparr>"

text \<open>The tree of the project \<open>/p\<close>, and two trees that differ in where a file lies
  and in its name.\<close>

definition demoTree :: node where
  "demoTree =
     DirectoryNode ''p''
       [DirectoryNode ''src''
          [FileNode ''index.ts'' ''/p/src/index.ts'',
           DirectoryNode ''lib'' [FileNode ''util.ts'' ''/p/src/lib/util.ts'']],
        FileNode ''package.json'' ''/p/package.json'',
        FileNode ''a.txt'' ''/p/a.txt'']"

definition spacedTree :: node where
  "spacedTree = DirectoryNode ''p'' [DirectoryNode ''q'' [], FileNode ''  a'' ''/p/  a'']"

definition nestedTree :: node where
  "nestedTree = DirectoryNode ''p'' [DirectoryNode ''q'' [FileNode ''a'' ''/p/q/a'']]"

text \<open>Metadata of a Python project with one dependency and no manifest fields.\<close>

definition demoData :: projectData where
  "demoData =
     \<lparr> projectName = JStr ''py'', description = JNull, version = JNull, author = JNull,
       license = JNull, homepage = JNull, repository = JNull, scripts = JObj [],
       dependencies = [''requests''], devDependencies = [],
       detectedTechnologies = [''Python'', ''Go''], configFiles = [''requirements.txt''],
       directoryStructure = DirectoryNode ''py'' [],
       directoryStructureFormatted = ''py/'' @ newline,
       rootFiles = [''requirements.txt'', ''go.mod''] \<rparr>"

section \<open>Depth bound zero\<close>

text \<open>
  C1 (as amended). With \<open>maxDepth = 0\<close> the scanner returns \<open>null\<close>, no node at all, for
  every path, and it does so before the directory is listed: the answer is the same
  whether or not the entries can be listed.
\<close>

theorem scan_depth_zero_null:
  "getDirectoryStructure h dirPath 0 0 ignorePatterns = Inr None"
  by (simp add: getDirectoryStructure.simps)

theorem scan_depth_zero_null_witness:
  "getDirectoryStructure demoHost ''/e'' 0 0 defaultIgnorePatterns = Inr None
   \<and> getDirectoryStructure demoHost ''/missing'' 0 0 defaultIgnorePatterns = Inr None"
  using scan_depth_zero_null [of demoHost "''/e''" defaultIgnorePatterns]
        scan_depth_zero_null [of demoHost "''/missing''" defaultIgnorePatterns]
  by simp

text \<open>
  C1 as stated fails: \<open>/e\<close> is a directory whose (empty) listing can be read, and the
  scan with \<open>maxDepth = 0\<close> is not a directory node with no children.
\<close>

theorem scan_depth_zero_counterexample:
  "readdir demoHost ''/e'' = Inr []
   \<and> getDirectoryStructure demoHost ''/e'' 0 0 defaultIgnorePatterns
       \<noteq> Inr (Some (DirectoryNode ''e'' []))"
  by (simp add: getDirectoryStructure.simps demoHost_def demoReaddir_def)

section \<open>What a scan returns\<close>

lemma scan_None_iff:
  "getDirectoryStructure h dirPath maxDepth currentDepth ign = Inr None \<longleftrightarrow> maxDepth \<le> currentDepth"
  by (subst getDirectoryStructure.simps) (auto split: sum.splits)

lemma scanEntries_children:
  fixes h recurse dirPath ign
  defines "R \<equiv> (\<lambda>child entry.
           if isDirectory entry then recurse (join h dirPath (name entry)) = Inr (Some child)
           else child = FileNode (name entry) (join h dirPath (name entry)))"
    and "K \<equiv> (\<lambda>entry. \<not> ignored ign (name entry)
                   \<and> (if isDirectory entry then recurse (join h dirPath (name entry)) \<noteq> Inr None else True))"
  shows "scanEntries h recurse dirPath ign entries acc = Inr cs \<Longrightarrow>
   \<exists>new. cs = acc @ new \<and> list_all2 R new (filter K entries)"
proof (induction entries arbitrary: acc)
  case Nil
  then show ?case by simp
next
  case (Cons entry entries)
  show ?case
  proof (cases "ignored ign (name entry)")
    case True
    then have "\<not> K entry" by (simp add: K_def)
    with True Cons show ?thesis by simp
  next
    case notIgnored: False
    show ?thesis
    proof (cases "isDirectory entry")
      case False
      with notIgnored have K: "K entry"
        and R: "R (FileNode (name entry) (join h dirPath (name entry))) entry"
        by (simp_all add: K_def R_def)
      from False notIgnored Cons.prems
      have "scanEntries h recurse dirPath ign entries
              (acc @ [FileNode (name entry) (join h dirPath (name entry))]) = Inr cs"
        by (simp add: Let_def)
      from Cons.IH [OF this] obtain new where
        "cs = (acc @ [FileNode (name entry) (join h dirPath (name entry))]) @ new"
        "list_all2 R new (filter K entries)" by blast
      with K R show ?thesis
        by (intro exI [of _ "FileNode (name entry) (join h dirPath (name entry)) # new"]) simp
    next
      case True
      show ?thesis
      proof (cases "recurse (join h dirPath (name entry))")
        case (Inl e)
        with True notIgnored Cons.prems show ?thesis by (simp add: Let_def)
      next
        case (Inr r)
        show ?thesis
        proof (cases r)
          case None
          with Inr True have "\<not> K entry" by (simp add: K_def)
          moreover from None Inr True notIgnored Cons.prems
          have "scanEntries h recurse dirPath ign entries acc = Inr cs"
            by (simp add: Let_def)
          ultimately show ?thesis using Cons.IH by simp
        next
          case (Some sub)
          with Inr True notIgnored have K: "K entry" and R: "R sub entry"
            by (simp_all add: K_def R_def)
          from Some Inr True notIgnored Cons.prems
          have "scanEntries h recurse dirPath ign entries (acc @ [sub]) = Inr cs"
            by (simp add: Let_def)
          from Cons.IH [OF this] obtain new where
            "cs = (acc @ [sub]) @ new" "list_all2 R new (filter K entries)" by blast
          with K R show ?thesis
            by (intro exI [of _ "sub # new"]) simp
        qed
      qed
    qed
  qed
qed

lemma scan_Some_children:
  assumes "getDirectoryStructure h dirPath maxDepth currentDepth ign = Inr (Some t)"
  shows "currentDepth < maxDepth
    \<and> (\<exists>entries cs. readdir h dirPath = Inr entries
          \<and> t = DirectoryNode (structureName h dirPath) cs
          \<and> list_all2 (childFor h dirPath maxDepth currentDepth ign) cs
               (filter (kept ign maxDepth currentDepth) entries))"
proof -
  from assms have lt: "currentDepth < maxDepth"
    by (subst (asm) getDirectoryStructure.simps) (auto split: if_splits)
  from assms lt obtain entries where entries: "readdir h dirPath = Inr entries"
    by (subst (asm) getDirectoryStructure.simps) (auto split: sum.splits)
  from assms lt entries obtain cs where
    cs: "scanEntries h (\<lambda>fullPath. getDirectoryStructure h fullPath maxDepth (currentDepth + 1) ign)
           dirPath ign entries [] = Inr cs"
    and t: "t = DirectoryNode (structureName h dirPath) cs"
    by (subst (asm) getDirectoryStructure.simps) (auto split: sum.splits)
  have same: "(\<lambda>entry. \<not> ignored ign (name entry)
                   \<and> (if isDirectory entry
                       then getDirectoryStructure h (join h dirPath (name entry)) maxDepth (currentDepth + 1) ign \<noteq> Inr None
                       else True))
              = kept ign maxDepth currentDepth"
    by (auto simp: kept_def scan_None_iff fun_eq_iff)
  from scanEntries_children [OF cs]
  have "list_all2 (childFor h dirPath maxDepth currentDepth ign) cs
               (filter (kept ign maxDepth currentDepth) entries)"
    unfolding same childFor_def by simp
  with lt entries t show ?thesis by blast
qed

lemma treeDepth_le:
  "treeDepth (DirectoryNode nm cs) \<le> k \<longleftrightarrow> (\<forall>child \<in> set cs. Suc (treeDepth child) \<le> k)"
  by (induction cs) auto

lemma in_set_list_all2:
  "list_all2 R xs ys \<Longrightarrow> x \<in> set xs \<Longrightarrow> \<exists>y \<in> set ys. R x y"
  by (induction rule: list_all2_induct) auto

text \<open>The number of levels a scan may still go down: the distance to the bound,
  rounded up.\<close>

lemma levels_left_zero: "0 = nat \<lceil>maxDepth - currentDepth\<rceil> \<Longrightarrow> maxDepth \<le> (currentDepth :: real)"
  by linarith

lemma levels_left_Suc:
  assumes "Suc n = nat \<lceil>maxDepth - currentDepth\<rceil>"
  shows "currentDepth < (maxDepth :: real)" and "n = nat \<lceil>maxDepth - (currentDepth + 1)\<rceil>"
proof -
  from assms show lt: "currentDepth < maxDepth" by linarith
  have "\<lceil>maxDepth - (currentDepth + 1)\<rceil> = \<lceil>maxDepth - currentDepth\<rceil> - 1"
    by linarith
  with assms show "n = nat \<lceil>maxDepth - (currentDepth + 1)\<rceil>" by linarith
qed

lemma treeDepth_of_scan:
  "getDirectoryStructure h dirPath maxDepth currentDepth ign = Inr (Some t)
   \<Longrightarrow> treeDepth t \<le> nat \<lceil>maxDepth - currentDepth\<rceil>"
proof (induction "nat \<lceil>maxDepth - currentDepth\<rceil>" arbitrary: dirPath currentDepth t)
  case 0
  from scan_Some_children [OF "0.prems"] levels_left_zero [OF "0.hyps"] show ?case by simp
next
  case (Suc n)
  note left = levels_left_Suc [OF Suc.hyps(2)]
  from scan_Some_children [OF Suc.prems] obtain entries cs where
    t: "t = DirectoryNode (structureName h dirPath) cs"
    and cs: "list_all2 (childFor h dirPath maxDepth currentDepth ign) cs
               (filter (kept ign maxDepth currentDepth) entries)"
    by blast
  have "Suc (treeDepth child) \<le> Suc n" if "child \<in> set cs" for child
  proof -
    from in_set_list_all2 [OF cs that] obtain entry where
      rel: "childFor h dirPath maxDepth currentDepth ign child entry"
      by auto
    show ?thesis
    proof (cases "isDirectory entry")
      case True
      with rel have "getDirectoryStructure h (join h dirPath (name entry)) maxDepth
                       (currentDepth + 1) ign = Inr (Some child)"
        by (simp add: childFor_def)
      from Suc.hyps(1) [OF left(2) this] left(2) show ?thesis by simp
    next
      case False
      with rel show ?thesis by (simp add: childFor_def)
    qed
  qed
  then have "treeDepth t \<le> Suc n"
    unfolding t treeDepth_le by blast
  with Suc.hyps(2) show ?case by simp
qed

lemma scan_levels:
  "getDirectoryStructure h dirPath maxDepth currentDepth ign = Inr (Some t)
   \<Longrightarrow> list_all (\<lambda>row. currentDepth + real (fst row) < maxDepth + real k + 1
                     \<and> (snd (snd row) \<longrightarrow> currentDepth + real (fst row) < maxDepth + real k))
         (preorder t k)"
proof (induction "nat \<lceil>maxDepth - currentDepth\<rceil>" arbitrary: dirPath currentDepth t k)
  case 0
  from scan_Some_children [OF "0.prems"] levels_left_zero [OF "0.hyps"] show ?case by simp
next
  case (Suc n)
  note left = levels_left_Suc [OF Suc.hyps(2)]
  from scan_Some_children [OF Suc.prems] obtain entries cs where
    t: "t = DirectoryNode (structureName h dirPath) cs"
    and cs: "list_all2 (childFor h dirPath maxDepth currentDepth ign) cs
               (filter (kept ign maxDepth currentDepth) entries)"
    by blast
  have "list_all (\<lambda>row. currentDepth + real (fst row) < maxDepth + real k + 1
                     \<and> (snd (snd row) \<longrightarrow> currentDepth + real (fst row) < maxDepth + real k))
         (preorder child (k + 1))" if "child \<in> set cs" for child
  proof -
    from in_set_list_all2 [OF cs that] obtain entry where
      rel: "childFor h dirPath maxDepth currentDepth ign child entry"
      by auto
    show ?thesis
    proof (cases "isDirectory entry")
      case False
      with rel left(1) show ?thesis by (simp add: childFor_def)
    next
      case True
      with rel have sub: "getDirectoryStructure h (join h dirPath (name entry)) maxDepth
                            (currentDepth + 1) ign = Inr (Some child)"
        by (simp add: childFor_def)
      from Suc.hyps(1) [OF left(2) sub, of "k + 1"]
      show ?thesis by (fastforce simp add: list_all_iff)
    qed
  qed
  with left(1) show ?case
    unfolding t by (simp add: list_all_iff)
qed

text \<open>
  C7 (as amended). The bound is a number and is compared without rounding. Every
  tree a scan returns has depth at most the distance from \<open>currentDepth\<close> to
  \<open>maxDepth\<close> rounded up to a whole number, so at most \<open>maxDepth\<close> itself when the scan
  starts at depth 0 with a whole-number bound; every node lies less than one level
  beyond \<open>maxDepth\<close> and every directory node lies at a depth below \<open>maxDepth\<close>. Once
  \<open>currentDepth \<ge> maxDepth\<close> the scan returns no node; the children of the returned
  node are, in the order of the listing, the nodes of exactly those entries that are
  not ignored and, if directories, not cut off by the bound.
\<close>

theorem scan_depth_bounded:
  assumes "getDirectoryStructure h dirPath maxDepth currentDepth ign = Inr (Some t)"
  shows "int (treeDepth t) \<le> \<lceil>maxDepth - currentDepth\<rceil>
    \<and> (maxDepth - currentDepth \<in> \<int> \<longrightarrow> currentDepth + real (treeDepth t) \<le> maxDepth)
    \<and> list_all (\<lambda>row. currentDepth + real (fst row) < maxDepth + 1
                       \<and> (snd (snd row) \<longrightarrow> currentDepth + real (fst row) < maxDepth))
         (preorder t 0)
    \<and> (\<forall>deeper subPath. maxDepth \<le> deeper \<longrightarrow>
          getDirectoryStructure h subPath maxDepth deeper ign = Inr None)
    \<and> (\<exists>entries. readdir h dirPath = Inr entries
          \<and> list_all2 (childFor h dirPath maxDepth currentDepth ign) (children t)
               (filter (kept ign maxDepth currentDepth) entries))"
proof -
  from scan_Some_children [OF assms] have "currentDepth < maxDepth" by blast
  then have "0 < \<lceil>maxDepth - currentDepth\<rceil>" by linarith
  with treeDepth_of_scan [OF assms]
  have depth: "int (treeDepth t) \<le> \<lceil>maxDepth - currentDepth\<rceil>" by linarith
  have whole: "currentDepth + real (treeDepth t) \<le> maxDepth"
    if "maxDepth - currentDepth \<in> \<int>"
  proof -
    from that obtain z :: int where z: "maxDepth - currentDepth = of_int z"
      by (auto elim: Ints_cases)
    with depth have "int (treeDepth t) \<le> z" by simp
    then have "real (treeDepth t) \<le> of_int z" by linarith
    with z show ?thesis by linarith
  qed
  from scan_Some_children [OF assms]
  have "\<exists>entries. readdir h dirPath = Inr entries
          \<and> list_all2 (childFor h dirPath maxDepth currentDepth ign) (children t)
               (filter (kept ign maxDepth currentDepth) entries)"
    by auto
  with depth whole scan_levels [OF assms, of 0] show ?thesis
    by (simp add: scan_None_iff)
qed

theorem scan_depth_bounded_witness:
  "getDirectoryStructure demoHost ''/p'' 2 0 defaultIgnorePatterns
     = Inr (Some (DirectoryNode ''p''
         [DirectoryNode ''src'' [FileNode ''index.ts'' ''/p/src/index.ts''],
          FileNode ''package.json'' ''/p/package.json'', FileNode ''a.txt'' ''/p/a.txt'']))
   \<and> treeDepth (DirectoryNode ''p''
         [DirectoryNode ''src'' [FileNode ''index.ts'' ''/p/src/index.ts''],
          FileNode ''package.json'' ''/p/package.json'', FileNode ''a.txt'' ''/p/a.txt'']) = 2
   \<and> getDirectoryStructure demoHost ''/p/src/lib'' 2 2 defaultIgnorePatterns = Inr None
   \<and> filter (kept defaultIgnorePatterns 2 1) [Dirent ''index.ts'' False, Dirent ''lib'' True]
       = [Dirent ''index.ts'' False]
   \<and> getDirectoryStructure demoHost ''/p'' (5 / 2) 0 defaultIgnorePatterns
       = Inr (Some demoTree)
   \<and> treeDepth demoTree = 3 \<and> \<lceil>5 / 2 :: real\<rceil> = 3"
proof -
  let ?t = "DirectoryNode ''p''
         [DirectoryNode ''src'' [FileNode ''index.ts'' ''/p/src/index.ts''],
          FileNode ''package.json'' ''/p/package.json'', FileNode ''a.txt'' ''/p/a.txt'']"
  have scan: "getDirectoryStructure demoHost ''/p'' 2 0 defaultIgnorePatterns = Inr (Some ?t)"
    by (simp add: getDirectoryStructure.simps demoHost_def demoReaddir_def
          defaultIgnorePatterns_def ignored_def joinSlash_def structureName_def)
  have scan': "getDirectoryStructure demoHost ''/p'' (5 / 2) 0 defaultIgnorePatterns
               = Inr (Some demoTree)"
    by (simp add: getDirectoryStructure.simps demoHost_def demoReaddir_def
          defaultIgnorePatterns_def ignored_def joinSlash_def structureName_def demoTree_def)
  have depth: "treeDepth ?t = 2"
    by simp
  have kept: "filter (kept defaultIgnorePatterns 2 1)
                [Dirent ''index.ts'' False, Dirent ''lib'' True] = [Dirent ''index.ts'' False]"
    by (simp add: kept_def ignored_def defaultIgnorePatterns_def)
  from scan_depth_bounded [OF scan]
  have none: "getDirectoryStructure demoHost ''/p/src/lib'' 2 2 defaultIgnorePatterns = Inr None"
    by simp
  from scan_depth_bounded [OF scan']
  have "int (treeDepth demoTree) \<le> \<lceil>5 / 2 - 0 :: real\<rceil>" by blast
  moreover have "treeDepth demoTree = 3" by (simp add: demoTree_def)
  moreover have "\<lceil>5 / 2 :: real\<rceil> = 3" by linarith
  ultimately show ?thesis using scan scan' depth kept none by simp
qed

text \<open>
  C7 as stated fails for a bound that is not a whole number: with \<open>maxDepth = 0.5\<close> the
  test \<open>0 >= 0.5\<close> is false, the root is listed and its files become nodes at depth 1,
  beyond the bound.
\<close>

theorem scan_depth_counterexample:
  "getDirectoryStructure demoHost ''/p'' (1 / 2) 0 defaultIgnorePatterns
     = Inr (Some (DirectoryNode ''p''
         [FileNode ''package.json'' ''/p/package.json'', FileNode ''a.txt'' ''/p/a.txt'']))
   \<and> treeDepth (DirectoryNode ''p''
         [FileNode ''package.json'' ''/p/package.json'', FileNode ''a.txt'' ''/p/a.txt'']) = 1
   \<and> \<not> (real 1 \<le> 1 / 2)"
  by (simp add: getDirectoryStructure.simps demoHost_def demoReaddir_def
        defaultIgnorePatterns_def ignored_def joinSlash_def structureName_def)

section \<open>Ignored entries\<close>

lemma startsWith_prefix: "startsWith s pattern \<longleftrightarrow> prefix pattern s"
  by (induction s pattern rule: startsWith.induct) auto

lemma includesStr_sublist: "includesStr s pattern \<longleftrightarrow> sublist pattern s"
  by (induction s) (simp_all add: startsWith_prefix sublist_Cons_right)

lemma ignored_iff_substring:
  "ignored ign nm \<longleftrightarrow> (\<exists>pattern \<in> set ign. sublist pattern nm)"
  by (simp add: ignored_def list_ex_iff includesStr_sublist)

lemma nodeNames_split: "nodeNames t = nodeName t # namesBelow t"
  by (cases t) (simp_all add: namesBelow_def)

lemma scan_names:
  assumes named: "\<And>q es e. readdir h q = Inr es \<Longrightarrow> e \<in> set es \<Longrightarrow> isDirectory e
                    \<Longrightarrow> structureName h (join h q (name e)) = name e"
  shows "getDirectoryStructure h dirPath maxDepth currentDepth ign = Inr (Some t)
         \<Longrightarrow> list_all (\<lambda>nm. \<not> ignored ign nm) (namesBelow t)"
proof (induction "nat \<lceil>maxDepth - currentDepth\<rceil>" arbitrary: dirPath currentDepth t)
  case 0
  from scan_Some_children [OF "0.prems"] levels_left_zero [OF "0.hyps"] show ?case by simp
next
  case (Suc n)
  note left = levels_left_Suc [OF Suc.hyps(2)]
  from scan_Some_children [OF Suc.prems] obtain entries cs where
    lt: "currentDepth < maxDepth" and entries: "readdir h dirPath = Inr entries"
    and t: "t = DirectoryNode (structureName h dirPath) cs"
    and cs: "list_all2 (childFor h dirPath maxDepth currentDepth ign) cs
               (filter (kept ign maxDepth currentDepth) entries)"
    by blast
  have "list_all (\<lambda>nm. \<not> ignored ign nm) (nodeNames child)" if "child \<in> set cs" for child
  proof -
    from in_set_list_all2 [OF cs that] obtain entry where
      entry: "entry \<in> set entries" "kept ign maxDepth currentDepth entry"
      and rel: "childFor h dirPath maxDepth currentDepth ign child entry"
      by auto
    from entry have notIgnored: "\<not> ignored ign (name entry)" by (simp add: kept_def)
    show ?thesis
    proof (cases "isDirectory entry")
      case False
      with rel notIgnored show ?thesis by (simp add: childFor_def)
    next
      case True
      with rel have sub: "getDirectoryStructure h (join h dirPath (name entry)) maxDepth
                            (currentDepth + 1) ign = Inr (Some child)"
        by (simp add: childFor_def)
      from Suc.hyps(1) [OF left(2) sub]
      have below: "list_all (\<lambda>nm. \<not> ignored ign nm) (namesBelow child)" .
      from scan_Some_children [OF sub]
      have "nodeName child = structureName h (join h dirPath (name entry))" by auto
      with named [OF entries entry(1) True] have "nodeName child = name entry" by simp
      with below notIgnored show ?thesis by (simp add: nodeNames_split)
    qed
  qed
  then show ?case
    unfolding t by (simp add: namesBelow_def list_all_iff)
qed

lemma scanEntries_filter:
  "scanEntries h recurse dirPath ign (filter (\<lambda>entry. \<not> ignored ign (name entry)) entries) acc
   = scanEntries h recurse dirPath ign entries acc"
  by (induction entries arbitrary: acc) (simp_all add: Let_def split: sum.splits option.splits)

lemma scanEntries_cong:
  assumes "join h' = join h"
    and "\<And>entry. entry \<in> set entries \<Longrightarrow> \<not> ignored ign (name entry) \<Longrightarrow> isDirectory entry
           \<Longrightarrow> recurse' (join h dirPath (name entry)) = recurse (join h dirPath (name entry))"
  shows "scanEntries h' recurse' dirPath ign entries acc
         = scanEntries h recurse dirPath ign entries acc"
  using assms
  by (induction entries arbitrary: acc) (simp_all add: Let_def split: sum.splits option.splits)

lemma scan_agree:
  assumes agree: "\<And>q. q \<in> reachable h ign start
                    \<Longrightarrow> visible ign (listing q) = visible ign (readdir h q)"
  shows "dirPath \<in> reachable h ign start \<Longrightarrow>
         getDirectoryStructure (h\<lparr>readdir := listing\<rparr>) dirPath maxDepth currentDepth ign
         = getDirectoryStructure h dirPath maxDepth currentDepth ign"
proof (induction "nat \<lceil>maxDepth - currentDepth\<rceil>" arbitrary: dirPath currentDepth)
  case 0
  from levels_left_zero [OF "0.hyps"] have "maxDepth \<le> currentDepth" .
  then show ?case by (simp add: getDirectoryStructure.simps)
next
  case (Suc n)
  let ?h' = "h\<lparr>readdir := listing\<rparr>"
  let ?rec = "\<lambda>fullPath. getDirectoryStructure h fullPath maxDepth (currentDepth + 1) ign"
  let ?rec' = "\<lambda>fullPath. getDirectoryStructure ?h' fullPath maxDepth (currentDepth + 1) ign"
  from levels_left_Suc [OF Suc.hyps(2)] have lt: "\<not> maxDepth \<le> currentDepth"
    and n: "n = nat \<lceil>maxDepth - (currentDepth + 1)\<rceil>" by simp_all
  have name: "structureName ?h' dirPath = structureName h dirPath"
    by (simp add: structureName_def)
  from agree [OF Suc.prems]
  have vis: "visible ign (listing dirPath) = visible ign (readdir h dirPath)" .
  show ?case
  proof (cases "readdir h dirPath")
    case (Inl e)
    with vis have "listing dirPath = Inl e"
      by (simp add: visible_def split: sum.splits)
    with Inl lt show ?thesis
      by (simp add: getDirectoryStructure.simps [of _ dirPath])
  next
    case (Inr entries)
    with vis obtain entries' where listing: "listing dirPath = Inr entries'"
      and same: "filter (\<lambda>entry. \<not> ignored ign (name entry)) entries'
                 = filter (\<lambda>entry. \<not> ignored ign (name entry)) entries"
      by (auto simp add: visible_def split: sum.splits)
    have "scanEntries ?h' ?rec' dirPath ign entries' []
          = scanEntries ?h' ?rec' dirPath ign
              (filter (\<lambda>entry. \<not> ignored ign (name entry)) entries) []"
      using scanEntries_filter [of ?h' ?rec' dirPath ign entries' "[]"] same by simp
    also have "\<dots> = scanEntries h ?rec dirPath ign
                       (filter (\<lambda>entry. \<not> ignored ign (name entry)) entries) []"
    proof (rule scanEntries_cong)
      show "join ?h' = join h" by simp
    next
      fix entry
      assume "entry \<in> set (filter (\<lambda>entry. \<not> ignored ign (name entry)) entries)"
        and dir: "isDirectory entry"
      then have "entry \<in> set entries" "\<not> ignored ign (name entry)" by simp_all
      with Suc.prems Inr dir
      have "join h dirPath (name entry) \<in> reachable h ign start"
        by (intro reachable.step)
      from Suc.hyps(1) [OF n this]
      show "?rec' (join h dirPath (name entry)) = ?rec (join h dirPath (name entry))" .
    qed
    also have "\<dots> = scanEntries h ?rec dirPath ign entries []"
      by (rule scanEntries_filter)
    finally have "scanEntries ?h' ?rec' dirPath ign entries' []
                  = scanEntries h ?rec dirPath ign entries []" .
    with Inr listing lt name show ?thesis
      by (simp add: getDirectoryStructure.simps [of _ dirPath] split: sum.splits)
  qed
qed

lemma demo_reachable:
  "q \<in> reachable demoHost defaultIgnorePatterns ''/p''
   \<Longrightarrow> q \<in> {''/p'', ''/p/src'', ''/p/src/lib''}"
  by (induction rule: reachable.induct)
     (auto simp: demoHost_def demoReaddir_def joinSlash_def ignored_def
        defaultIgnorePatterns_def split: if_splits)

lemma demo_named:
  "readdir demoHost q = Inr es \<Longrightarrow> e \<in> set es \<Longrightarrow> isDirectory e
   \<Longrightarrow> structureName demoHost (join demoHost q (name e)) = name e"
  by (auto simp: demoHost_def demoReaddir_def structureName_def joinSlash_def
        split: if_splits)

lemma demo_visible:
  "q \<in> {''/p'', ''/p/src'', ''/p/src/lib''}
   \<Longrightarrow> visible defaultIgnorePatterns (strippedReaddir q)
       = visible defaultIgnorePatterns (readdir demoHost q)"
  by (auto simp: visible_def strippedReaddir_def demoHost_def demoReaddir_def ignored_def
        defaultIgnorePatterns_def)

text \<open>
  C3. An entry is ignored exactly when one of the patterns occurs in its name as a
  substring, compared character by character. In the tree a scan returns, no node
  below the root bears an ignored name (on a host where the base name of a joined
  directory path is the entry's name), and the scan reads nothing outside the paths
  reached through entries that are not ignored: the result is the same on every file
  system that lists, at those paths, the same entries once the ignored ones are left
  out, whatever it holds for the ignored entries and below them.
\<close>

theorem ignored_entries_never_scanned:
  assumes "getDirectoryStructure h start maxDepth currentDepth ign = Inr (Some t)"
  shows "(\<forall>nm. ignored ign nm \<longleftrightarrow> (\<exists>pattern \<in> set ign. sublist pattern nm))
    \<and> ((\<forall>q es e. readdir h q = Inr es \<longrightarrow> e \<in> set es \<longrightarrow> isDirectory e
            \<longrightarrow> structureName h (join h q (name e)) = name e)
        \<longrightarrow> list_all (\<lambda>nm. \<not> ignored ign nm) (namesBelow t))
    \<and> (\<forall>listing.
          (\<forall>q \<in> reachable h ign start. visible ign (listing q) = visible ign (readdir h q))
          \<longrightarrow> getDirectoryStructure (h\<lparr>readdir := listing\<rparr>) start maxDepth currentDepth ign
              = Inr (Some t))"
proof (intro conjI allI impI)
  fix nm
  show "ignored ign nm \<longleftrightarrow> (\<exists>pattern \<in> set ign. sublist pattern nm)"
    by (rule ignored_iff_substring)
next
  assume "\<forall>q es e. readdir h q = Inr es \<longrightarrow> e \<in> set es \<longrightarrow> isDirectory e
            \<longrightarrow> structureName h (join h q (name e)) = name e"
  then have "\<And>q es e. readdir h q = Inr es \<Longrightarrow> e \<in> set es \<Longrightarrow> isDirectory e
                    \<Longrightarrow> structureName h (join h q (name e)) = name e"
    by blast
  from scan_names [OF this assms]
  show "list_all (\<lambda>nm. \<not> ignored ign nm) (namesBelow t)" .
next
  fix listing
  assume "\<forall>q \<in> reachable h ign start. visible ign (listing q) = visible ign (readdir h q)"
  then have "\<And>q. q \<in> reachable h ign start
               \<Longrightarrow> visible ign (listing q) = visible ign (readdir h q)"
    by blast
  from scan_agree [OF this reachable.start] assms
  show "getDirectoryStructure (h\<lparr>readdir := listing\<rparr>) start maxDepth currentDepth ign
        = Inr (Some t)"
    by simp
qed

theorem ignored_entries_never_scanned_witness:
  "getDirectoryStructure demoHost ''/p'' 3 0 defaultIgnorePatterns = Inr (Some demoTree)
   \<and> readdir demoHost ''/p/node_modules'' = Inr [Dirent ''left-pad'' True]
   \<and> ignored defaultIgnorePatterns ''node_modules''
   \<and> list_all (\<lambda>nm. \<not> ignored defaultIgnorePatterns nm) (namesBelow demoTree)
   \<and> strippedReaddir ''/p/node_modules'' = Inl (enoent ''/p/node_modules'')
   \<and> getDirectoryStructure (demoHost\<lparr>readdir := strippedReaddir\<rparr>) ''/p'' 3 0
        defaultIgnorePatterns = Inr (Some demoTree)"
proof -
  have scan: "getDirectoryStructure demoHost ''/p'' 3 0 defaultIgnorePatterns
              = Inr (Some demoTree)"
    by code_simp
  have named: "\<forall>q es e. readdir demoHost q = Inr es \<longrightarrow> e \<in> set es \<longrightarrow> isDirectory e
                 \<longrightarrow> structureName demoHost (join demoHost q (name e)) = name e"
    using demo_named by blast
  have same: "\<forall>q \<in> reachable demoHost defaultIgnorePatterns ''/p''.
                visible defaultIgnorePatterns (strippedReaddir q)
                = visible defaultIgnorePatterns (readdir demoHost q)"
    using demo_reachable demo_visible by blast
  note inst = ignored_entries_never_scanned [OF scan]
  from inst named have names:
    "list_all (\<lambda>nm. \<not> ignored defaultIgnorePatterns nm) (namesBelow demoTree)"
    by blast
  from inst same have stripped:
    "getDirectoryStructure (demoHost\<lparr>readdir := strippedReaddir\<rparr>) ''/p'' 3 0
       defaultIgnorePatterns = Inr (Some demoTree)"
    by blast
  have "readdir demoHost ''/p/node_modules'' = Inr [Dirent ''left-pad'' True]"
    by (simp add: demoHost_def demoReaddir_def)
  moreover have "ignored defaultIgnorePatterns ''node_modules''"
    by (simp add: ignored_def defaultIgnorePatterns_def)
  moreover have "strippedReaddir ''/p/node_modules'' = Inl (enoent ''/p/node_modules'')"
    by (simp add: strippedReaddir_def)
  ultimately show ?thesis using scan names stripped by simp
qed

section \<open>The rendered text\<close>

lemma foldl_append_concat:
  "foldl (\<lambda>result child. result @ f child) start cs = start @ concat (map f cs)"
  by (induction cs arbitrary: start) simp_all

lemma repeat_two_spaces: "repeat ''  '' depth = replicate (2 * depth) CHR '' ''"
  by (induction depth) (simp_all add: repeat_def)

lemma renderRow_dir: "renderRow (depth, nm, True) = repeat ''  '' depth @ nm @ ''/'' @ newline"
  by (simp add: renderRow_def repeat_two_spaces)

lemma renderRow_file: "renderRow (depth, nm, False) = repeat ''  '' depth @ nm @ newline"
  by (simp add: renderRow_def repeat_two_spaces)

lemma format_rows:
  "formatDirectoryStructure t depth = concat (map renderRow (preorder t depth))"
proof (induction t arbitrary: depth)
  case (FileNode nm p)
  show ?case by (simp add: renderRow_file)
next
  case (DirectoryNode nm cs)
  have "concat (map (\<lambda>child. formatDirectoryStructure child (depth + 1)) cs)
        = concat (map renderRow (concat (map (\<lambda>child. preorder child (depth + 1)) cs)))"
    using DirectoryNode.IH by (induction cs) simp_all
  then show ?case
    by (simp add: foldl_append_concat renderRow_dir)
qed



section \<open>Reading the indentation back\<close>

lemma splitLines_line:
  "CHR 0x0A \<notin> set l \<Longrightarrow> splitLines acc (l @ newline @ rest) = (acc @ l) # splitLines [] rest"
  by (induction l arbitrary: acc) (auto simp add: newline_def)

lemma renderRow_body:
  "renderRow r =
     (replicate (2 * fst r) CHR '' '' @ fst (snd r) @ (if snd (snd r) then ''/'' else []))
     @ newline"
  by (cases r) (simp add: renderRow_def)

lemma parseRow_body:
  assumes "plainRow r"
  shows "parseRow (replicate (2 * fst r) CHR '' '' @ fst (snd r)
                   @ (if snd (snd r) then ''/'' else [])) = r"
proof -
  obtain d nm isDir where r: "r = (d, nm, isDir)" by (cases r) auto
  let ?rest = "nm @ (if isDir then ''/'' else [])"
  from assms r have nospace: "nm = [] \<or> hd nm \<noteq> CHR '' ''"
    and fileEnd: "isDir \<or> nm = [] \<or> last nm \<noteq> CHR ''/''"
    by (simp_all add: plainRow_def)
  have "?rest = [] \<or> hd ?rest \<noteq> CHR '' ''"
    using nospace by (cases nm) auto
  then have tw: "takeWhile (\<lambda>c. c = CHR '' '') (replicate (2 * d) CHR '' '' @ ?rest)
                 = replicate (2 * d) CHR '' ''"
    by (cases ?rest) (auto simp: takeWhile_append)
  show ?thesis
    using fileEnd unfolding r parseRow_def
    by (auto simp add: tw Let_def simp del: replicate_add)
qed

lemma splitLines_rows:
  "list_all plainRow rows \<Longrightarrow>
   splitLines [] (concat (map renderRow rows))
     = map (\<lambda>r. replicate (2 * fst r) CHR '' '' @ fst (snd r)
                 @ (if snd (snd r) then ''/'' else [])) rows"
proof (induction rows)
  case Nil
  show ?case by simp
next
  case (Cons r rows)
  obtain d nm isDir where r: "r = (d, nm, isDir)" by (cases r) auto
  from Cons.prems r
  have "CHR 0x0A \<notin> set (replicate (2 * d) CHR '' '' @ nm @ (if isDir then ''/'' else []))"
    by (auto simp: plainRow_def)
  then show ?case
    using Cons
      splitLines_line [of "replicate (2 * d) CHR '' '' @ nm @ (if isDir then ''/'' else [])" "[]"]
    by (simp add: renderRow_body r)
qed

text \<open>
  C9 (as amended). For every tree in which no name holds a newline, no name begins
  with a space and no file name ends with \<open>/\<close>, reading back the indentation of the
  rendered text (two spaces per level, a final \<open>/\<close> for a directory) gives the names,
  the nesting depths and the kinds of the tree's nodes, in pre-order.
\<close>

theorem render_parse_roundtrip:
  assumes "list_all plainRow (preorder t depth)"
  shows "parseIndented (formatDirectoryStructure t depth) = preorder t depth"
proof -
  have "parseIndented (formatDirectoryStructure t depth)
        = map (\<lambda>r. parseRow (replicate (2 * fst r) CHR '' '' @ fst (snd r)
                                @ (if snd (snd r) then ''/'' else []))) (preorder t depth)"
    by (simp add: parseIndented_def format_rows splitLines_rows [OF assms] comp_def)
  also have "\<dots> = map (\<lambda>r. r) (preorder t depth)"
    using assms by (intro map_cong refl parseRow_body) (simp add: list_all_iff)
  finally show ?thesis by simp
qed

theorem render_parse_roundtrip_witness:
  "list_all plainRow (preorder demoTree 0)
   \<and> parseIndented (formatDirectoryStructure demoTree 0) =
       [(0, ''p'', True), (1, ''src'', True), (2, ''index.ts'', False), (2, ''lib'', True),
        (3, ''util.ts'', False), (1, ''package.json'', False), (1, ''a.txt'', False)]"
proof -
  have plain: "list_all plainRow (preorder demoTree 0)"
    by (simp add: demoTree_def plainRow_def)
  show ?thesis
    using plain render_parse_roundtrip [OF plain]
    by (simp add: demoTree_def)
qed

text \<open>
  C9 as stated fails for a file whose name begins with spaces: the file \<open>  a\<close> beside
  the directory \<open>q\<close> renders to the same text as the file \<open>a\<close> inside \<open>q\<close>, so the text
  does not determine the names and depths, and reading it back gives depth 2 and the
  name \<open>a\<close> instead of depth 1 and the name \<open>  a\<close>.
\<close>

theorem render_parse_counterexample:
  "formatDirectoryStructure spacedTree 0 = formatDirectoryStructure nestedTree 0
   \<and> preorder spacedTree 0 \<noteq> preorder nestedTree 0
   \<and> parseIndented (formatDirectoryStructure spacedTree 0) \<noteq> preorder spacedTree 0"
  by (simp add: spacedTree_def nestedTree_def parseIndented_def parseRow_def newline_def
        repeat_def)

section \<open>Technology detection\<close>

lemma pushIfIncludes_append:
  "pushIfIncludes files marker label list = list @ (if marker \<in> set files then [label] else [])"
  by (simp add: pushIfIncludes_def)

lemma filter_Cons_append: "filter P (x # xs) = (if P x then [x] else []) @ filter P xs"
  by simp

lemma map_if_single: "map f (if c then [x] else []) = (if c then [f x] else [])"
  by simp

lemma detect_by_table: "detectTechnologies files = labelsByTable files"
  by (simp only: detectTechnologies_def labelsByTable_def markerTable_def pushIfIncludes_append
        filter_Cons_append filter.simps(1) map_append map_if_single list.map append_assoc
        append_Nil append_Nil2 fst_conv snd_conv)

lemma markerTable_split:
  "markerTable =
     [(''package.json'', ''Node.js''), (''tsconfig.json'', ''TypeScript'')]
     @ [(''requirements.txt'', ''Python'')] @ [(''setup.py'', ''Python'')]
     @ [(''Cargo.toml'', ''Rust''), (''go.mod'', ''Go''), (''pom.xml'', ''Java''),
        (''build.gradle'', ''Java/Gradle''), (''Dockerfile'', ''Docker'')]"
  by (simp add: markerTable_def)

lemma labels_distinct:
  "distinct (labelsByTable files)
   \<longleftrightarrow> \<not> (''requirements.txt'' \<in> set files \<and> ''setup.py'' \<in> set files)"
proof -
  let ?P = "\<lambda>row :: string \<times> string. fst row \<in> set files"
  let ?A = "[(''package.json'', ''Node.js''), (''tsconfig.json'', ''TypeScript'')]"
  let ?B = "[(''Cargo.toml'', ''Rust''), (''go.mod'', ''Go''), (''pom.xml'', ''Java''),
        (''build.gradle'', ''Java/Gradle''), (''Dockerfile'', ''Docker'')]"
  consider (both) "''requirements.txt'' \<in> set files" "''setup.py'' \<in> set files"
    | (noReq) "''requirements.txt'' \<notin> set files"
    | (noSetup) "''setup.py'' \<notin> set files"
    by blast
  then show ?thesis
  proof cases
    case both
    then have "labelsByTable files
               = map snd (filter ?P ?A) @ [''Python'', ''Python''] @ map snd (filter ?P ?B)"
      unfolding labelsByTable_def markerTable_split filter_append map_append by simp
    then have "\<not> distinct (labelsByTable files)" by simp
    with both show ?thesis by simp
  next
    case noReq
    then have "labelsByTable files
               = map snd (filter ?P (?A @ [(''setup.py'', ''Python'')] @ ?B))"
      unfolding labelsByTable_def markerTable_split filter_append map_append by simp
    moreover have "distinct (map snd (?A @ [(''setup.py'', ''Python'')] @ ?B))" by simp
    ultimately have "distinct (labelsByTable files)"
      by (simp only: distinct_map_filter)
    with noReq show ?thesis by simp
  next
    case noSetup
    then have "labelsByTable files
               = map snd (filter ?P (?A @ [(''requirements.txt'', ''Python'')] @ ?B))"
      unfolding labelsByTable_def markerTable_split filter_append map_append by simp
    moreover have "distinct (map snd (?A @ [(''requirements.txt'', ''Python'')] @ ?B))" by simp
    ultimately have "distinct (labelsByTable files)"
      by (simp only: distinct_map_filter)
    with noSetup show ?thesis by simp
  qed
qed

lemma filter_key_single:
  "distinct (map fst table) \<Longrightarrow> (k, v) \<in> set table
   \<Longrightarrow> map snd (filter (\<lambda>row. fst row = k) table) = [v]"
proof (induction table)
  case Nil
  then show ?case by simp
next
  case (Cons row table)
  show ?case
  proof (cases "fst row = k")
    case True
    with Cons.prems have notin: "k \<notin> fst ` set table" by simp
    then have "\<forall>r \<in> set table. fst r \<noteq> k" by force
    then have none: "filter (\<lambda>row. fst row = k) table = []"
      by (simp add: filter_empty_conv)
    from notin have "(k, v) \<notin> set table" by force
    with True Cons.prems have "row = (k, v)" by simp
    with none show ?thesis by simp
  next
    case False
    with Cons show ?thesis by auto
  qed
qed

lemma markerTable_keys: "distinct (map fst markerTable)"
  by (simp add: markerTable_def)

lemma labels_single:
  assumes "labelsByTable files = []" "(marker, label) \<in> set markerTable"
    "set files' = insert marker (set files)"
  shows "labelsByTable files' = [label]"
proof -
  from assms(1) have none: "\<forall>row \<in> set markerTable. fst row \<notin> set files"
    by (simp add: labelsByTable_def filter_empty_conv)
  then have "filter (\<lambda>row. fst row \<in> set files') markerTable
             = filter (\<lambda>row. fst row = marker) markerTable"
    by (intro filter_cong refl) (simp add: assms(3))
  moreover have "map snd (filter (\<lambda>row. fst row = marker) markerTable) = [label]"
    by (rule filter_key_single [OF markerTable_keys assms(2)])
  ultimately show ?thesis by (simp add: labelsByTable_def)
qed

section \<open>The analysis\<close>

lemma scan_Inl_shape:
  assumes "getDirectoryStructure h dirPath maxDepth currentDepth ign = Inl e"
  shows "\<exists>cause. e = Exn ''Error'' (''Failed to read directory: '' @ toString cause)"
  using assms
  by (subst (asm) getDirectoryStructure.simps)
     (auto simp add: failedToRead_def newError_def split: if_splits sum.splits)

lemma analyze_scan_fail:
  "getDirectoryStructure h projectPath 3 0 defaultIgnorePatterns = Inl e
   \<Longrightarrow> analyzeProject h projectPath
       = Inl (Exn ''Error'' (''Failed to analyze project: '' @ toString e))"
  by (simp add: analyzeProject_def failedToAnalyze_def newError_def)

lemma scan_default_Some:
  assumes "getDirectoryStructure h projectPath 3 0 defaultIgnorePatterns = Inr r"
  shows "\<exists>t. r = Some t"
  using assms scan_None_iff [of h projectPath 3 0 defaultIgnorePatterns]
  by (cases r) auto

lemma analyze_listing_fail:
  assumes "getDirectoryStructure h projectPath 3 0 defaultIgnorePatterns = Inr r"
    and "readdirNames h projectPath = Inl e"
  shows "analyzeProject h projectPath
         = Inl (Exn ''Error'' (''Failed to analyze project: '' @ toString e))"
  using assms
  by (simp add: analyzeProject_def Let_def failedToAnalyze_def newError_def)

lemma analyze_both_ok:
  assumes "getDirectoryStructure h projectPath 3 0 defaultIgnorePatterns = Inr r"
    and "readdirNames h projectPath = Inr files"
  shows "\<exists>a. analyzeProject h projectPath = Inr a"
proof -
  from scan_default_Some [OF assms(1)] obtain t where "r = Some t" by blast
  with assms show ?thesis
    by (simp add: analyzeProject_def Let_def)
qed

lemma analyze_Inr:
  assumes "analyzeProject h projectPath = Inr a"
  shows "\<exists>t. getDirectoryStructure h projectPath 3 0 defaultIgnorePatterns = Inr (Some t)
           \<and> readdirNames h projectPath = Inr (rootFiles (projectData a))
           \<and> detectedTechnologies (projectData a)
               = detectTechnologies (rootFiles (projectData a))
           \<and> directoryStructure (projectData a) = t"
  using assms
  by (auto simp add: analyzeProject_def Let_def split: sum.splits option.splits)

lemma analyze_fails_iff:
  "(\<exists>e. analyzeProject h projectPath = Inl e)
   \<longleftrightarrow> (\<exists>e. getDirectoryStructure h projectPath 3 0 defaultIgnorePatterns = Inl e)
       \<or> (\<exists>e. readdirNames h projectPath = Inl e)"
proof (cases "getDirectoryStructure h projectPath 3 0 defaultIgnorePatterns")
  case (Inl e)
  with analyze_scan_fail [OF Inl] show ?thesis by simp
next
  case scan: (Inr r)
  show ?thesis
  proof (cases "readdirNames h projectPath")
    case (Inl e)
    with analyze_listing_fail [OF scan Inl] show ?thesis by simp
  next
    case (Inr files)
    with analyze_both_ok [OF scan Inr] scan show ?thesis by auto
  qed
qed

lemma unchanged_listing:
  assumes "unchanged h projectPath"
    and "getDirectoryStructure h projectPath 3 0 defaultIgnorePatterns = Inr r"
  shows "\<exists>entries. readdir h projectPath = Inr entries
           \<and> readdirNames h projectPath = Inr (map name entries)"
proof -
  from scan_default_Some [OF assms(2)] obtain t where "r = Some t" by blast
  with assms(2) scan_Some_children [of h projectPath 3 0 defaultIgnorePatterns t]
  obtain entries where "readdir h projectPath = Inr entries" by blast
  with assms(1) show ?thesis by (simp add: unchanged_def)
qed

lemma analyze_manifest_unset:
  assumes "readPackageJson h projectPath = JNull" "analyzeProject h projectPath = Inr a"
  shows "projectName (projectData a) = JStr (base h projectPath)
    \<and> description (projectData a) = JNull \<and> version (projectData a) = JNull
    \<and> author (projectData a) = JNull \<and> license (projectData a) = JNull
    \<and> homepage (projectData a) = JNull \<and> repository (projectData a) = JNull
    \<and> scripts (projectData a) = JObj [] \<and> dependencies (projectData a) = []
    \<and> devDependencies (projectData a) = []"
  using assms
  by (auto simp add: analyzeProject_def Let_def optField_def orElse_def keysOrEmpty_def
        split: sum.splits option.splits)

lemma demo_scan_e:
  "getDirectoryStructure demoHost ''/e'' 3 0 defaultIgnorePatterns
   = Inr (Some (DirectoryNode ''e'' []))"
  by code_simp

lemma demo_scan_go:
  "getDirectoryStructure demoHost ''/go'' 3 0 defaultIgnorePatterns
   = Inr (Some (DirectoryNode ''go'' [FileNode ''go.mod'' ''/go/go.mod'']))"
  by code_simp

lemma demo_scan_p:
  "getDirectoryStructure demoHost ''/p'' 3 0 defaultIgnorePatterns = Inr (Some demoTree)"
  by code_simp

lemma demo_scan_missing:
  "getDirectoryStructure demoHost ''/missing'' 3 0 defaultIgnorePatterns
   = Inl (failedToRead (enoent ''/missing''))"
  by (simp add: getDirectoryStructure.simps demoHost_def demoReaddir_def)

lemma demo_names:
  "readdirNames demoHost ''/e'' = Inr []"
  "readdirNames demoHost ''/go'' = Inr [''go.mod'']"
  "readdirNames demoHost ''/p'' = Inr [''node_modules'', ''src'', ''package.json'', ''a.txt'']"
  by (simp_all add: demoHost_def namesOf_def demoReaddir_def)

lemma demo_unchanged: "unchanged demoHost dirPath"
  by (simp add: unchanged_def demoHost_def namesOf_def)

text \<open>
  C2 (as amended). The \<open>detectedTechnologies\<close> of an analysis are the labels of the
  marker files present in the root listing, one per marker, in table order. They hold
  no label twice unless both \<open>requirements.txt\<close> and \<open>setup.py\<close> are listed, and then
  \<open>Python\<close> stands twice. If an analysis detects nothing, then an analysis of a listing
  that holds one marker file more detects exactly the label of that marker.
\<close>

theorem detected_technologies_by_table:
  assumes "analyzeProject h projectPath = Inr a"
  shows "detectedTechnologies (projectData a) = labelsByTable (rootFiles (projectData a))
    \<and> (distinct (detectedTechnologies (projectData a))
         \<longleftrightarrow> \<not> (''requirements.txt'' \<in> set (rootFiles (projectData a))
                \<and> ''setup.py'' \<in> set (rootFiles (projectData a))))
    \<and> (\<forall>h' projectPath' a' marker label.
          analyzeProject h' projectPath' = Inr a'
          \<longrightarrow> detectedTechnologies (projectData a) = []
          \<longrightarrow> (marker, label) \<in> set markerTable
          \<longrightarrow> set (rootFiles (projectData a')) = insert marker (set (rootFiles (projectData a)))
          \<longrightarrow> detectedTechnologies (projectData a') = [label])"
proof -
  have byTable: "detectedTechnologies (projectData b) = labelsByTable (rootFiles (projectData b))"
    if "analyzeProject g p = Inr b" for g p b
    using analyze_Inr [OF that] by (auto simp add: detect_by_table)
  have single: "detectedTechnologies (projectData a') = [label]"
    if "analyzeProject h' projectPath' = Inr a'" "detectedTechnologies (projectData a) = []"
      "(marker, label) \<in> set markerTable"
      "set (rootFiles (projectData a')) = insert marker (set (rootFiles (projectData a)))"
    for h' projectPath' a' marker label
    using labels_single [OF _ that(3) that(4)] that(2) byTable [OF assms] byTable [OF that(1)]
    by simp
  from byTable [OF assms] labels_distinct [of "rootFiles (projectData a)"] single
  show ?thesis by (simp only: simp_thms) blast
qed

theorem detected_technologies_by_table_witness:
  "map_sum id (detectedTechnologies \<circ> projectData) (analyzeProject demoHost ''/e'') = Inr []
   \<and> map_sum id (rootFiles \<circ> projectData) (analyzeProject demoHost ''/e'') = Inr []
   \<and> map_sum id (rootFiles \<circ> projectData) (analyzeProject demoHost ''/go'') = Inr [''go.mod'']
   \<and> (''go.mod'', ''Go'') \<in> set markerTable
   \<and> map_sum id (detectedTechnologies \<circ> projectData) (analyzeProject demoHost ''/go'')
       = Inr [''Go'']"
proof -
  from analyze_both_ok [OF demo_scan_e demo_names(1)] obtain aE where
    aE: "analyzeProject demoHost ''/e'' = Inr aE" by blast
  from analyze_both_ok [OF demo_scan_go demo_names(2)] obtain aGo where
    aGo: "analyzeProject demoHost ''/go'' = Inr aGo" by blast
  from analyze_Inr [OF aE] demo_names(1) have filesE: "rootFiles (projectData aE) = []"
    by auto
  from analyze_Inr [OF aGo] demo_names(2) have filesGo: "rootFiles (projectData aGo) = [''go.mod'']"
    by auto
  have row: "(''go.mod'', ''Go'') \<in> set markerTable"
    by (simp add: markerTable_def)
  note inst = detected_technologies_by_table [OF aE]
  from inst filesE have noneE: "detectedTechnologies (projectData aE) = []"
    by (simp add: labelsByTable_def markerTable_def)
  from inst aGo noneE row filesE filesGo
  have "detectedTechnologies (projectData aGo) = [''Go'']"
    by (metis list.simps(15))
  with aE aGo filesE filesGo noneE row show ?thesis by simp
qed

text \<open>
  C2 as stated fails: the root of \<open>/py\<close> lists both Python marker files, and the
  analysis detects \<open>Python\<close> twice.
\<close>

theorem detected_technologies_counterexample:
  "readdir demoHost ''/py''
     = Inr [Dirent ''requirements.txt'' False, Dirent ''setup.py'' False]
   \<and> map_sum id (detectedTechnologies \<circ> projectData) (analyzeProject demoHost ''/py'')
       = Inr [''Python'', ''Python'']
   \<and> \<not> distinct [''Python'', ''Python'']"
  by code_simp

section \<open>Failures of the analysis\<close>

text \<open>
  C5 (as amended). \<open>analyzeProject\<close> fails exactly when the scan of the project path
  (depth bound 3, default ignore patterns) fails or the second listing of the project
  path, read after the scan, fails; on a file system that does not change during
  the call this is exactly when the scan fails. The error is an \<open>Error\<close> whose message is
  \<open>Failed to analyze project: \<close> followed by the text of the cause, and the cause of a
  failed scan is itself an \<open>Error\<close> whose message begins \<open>Failed to read directory: \<close>.
  Whether the manifest can be read or parsed plays no part in this; when it cannot,
  an analysis that succeeds has every field that comes from the manifest unset:
  \<open>null\<close>, the empty object for the scripts, the empty list for the two dependency
  lists, and the base name of the path as project name.
\<close>

theorem analyze_failure_causes:
  "(\<forall>e. getDirectoryStructure h projectPath 3 0 defaultIgnorePatterns = Inl e
       \<longrightarrow> analyzeProject h projectPath
             = Inl (Exn ''Error'' (''Failed to analyze project: '' @ toString e))
           \<and> ename e = ''Error'' \<and> prefix ''Failed to read directory: '' (message e))
   \<and> (\<forall>r e. getDirectoryStructure h projectPath 3 0 defaultIgnorePatterns = Inr r
         \<longrightarrow> readdirNames h projectPath = Inl e
         \<longrightarrow> analyzeProject h projectPath
             = Inl (Exn ''Error'' (''Failed to analyze project: '' @ toString e)))
   \<and> ((\<exists>e. analyzeProject h projectPath = Inl e)
        \<longleftrightarrow> (\<exists>e. getDirectoryStructure h projectPath 3 0 defaultIgnorePatterns = Inl e)
            \<or> (\<exists>e. readdirNames h projectPath = Inl e))
   \<and> (unchanged h projectPath
        \<longrightarrow> ((\<exists>e. analyzeProject h projectPath = Inl e)
             \<longleftrightarrow> (\<exists>e. getDirectoryStructure h projectPath 3 0 defaultIgnorePatterns = Inl e)))
   \<and> (\<forall>e. analyzeProject h projectPath = Inl e
         \<longrightarrow> ename e = ''Error'' \<and> prefix ''Failed to analyze project: '' (message e))
   \<and> ((\<exists>e. readFile h (join h projectPath ''package.json'') = Inl e)
        \<or> (\<exists>content e. readFile h (join h projectPath ''package.json'') = Inr content
                \<and> jsonParse h content = Inl e)
        \<longrightarrow> (\<forall>a. analyzeProject h projectPath = Inr a
              \<longrightarrow> projectName (projectData a) = JStr (base h projectPath)
                \<and> description (projectData a) = JNull \<and> version (projectData a) = JNull
                \<and> author (projectData a) = JNull \<and> license (projectData a) = JNull
                \<and> homepage (projectData a) = JNull \<and> repository (projectData a) = JNull
                \<and> scripts (projectData a) = JObj [] \<and> dependencies (projectData a) = []
                \<and> devDependencies (projectData a) = []))"
proof (intro conjI)
  show "\<forall>e. getDirectoryStructure h projectPath 3 0 defaultIgnorePatterns = Inl e
       \<longrightarrow> analyzeProject h projectPath
             = Inl (Exn ''Error'' (''Failed to analyze project: '' @ toString e))
           \<and> ename e = ''Error'' \<and> prefix ''Failed to read directory: '' (message e)"
    using analyze_scan_fail scan_Inl_shape by fastforce
next
  show "\<forall>r e. getDirectoryStructure h projectPath 3 0 defaultIgnorePatterns = Inr r
         \<longrightarrow> readdirNames h projectPath = Inl e
         \<longrightarrow> analyzeProject h projectPath
             = Inl (Exn ''Error'' (''Failed to analyze project: '' @ toString e))"
    using analyze_listing_fail by blast
next
  show "(\<exists>e. analyzeProject h projectPath = Inl e)
        \<longleftrightarrow> (\<exists>e. getDirectoryStructure h projectPath 3 0 defaultIgnorePatterns = Inl e)
            \<or> (\<exists>e. readdirNames h projectPath = Inl e)"
    by (rule analyze_fails_iff)
next
  show "unchanged h projectPath
        \<longrightarrow> ((\<exists>e. analyzeProject h projectPath = Inl e)
             \<longleftrightarrow> (\<exists>e. getDirectoryStructure h projectPath 3 0 defaultIgnorePatterns = Inl e))"
  proof
    assume same: "unchanged h projectPath"
    show "(\<exists>e. analyzeProject h projectPath = Inl e)
          \<longleftrightarrow> (\<exists>e. getDirectoryStructure h projectPath 3 0 defaultIgnorePatterns = Inl e)"
    proof (cases "getDirectoryStructure h projectPath 3 0 defaultIgnorePatterns")
      case (Inl e)
      with analyze_scan_fail [OF Inl] show ?thesis by simp
    next
      case (Inr r)
      from unchanged_listing [OF same Inr] obtain entries where
        "readdirNames h projectPath = Inr (map name entries)" by blast
      with analyze_both_ok [OF Inr this] Inr show ?thesis by auto
    qed
  qed
next
  show "\<forall>e. analyzeProject h projectPath = Inl e
         \<longrightarrow> ename e = ''Error'' \<and> prefix ''Failed to analyze project: '' (message e)"
    by (auto simp add: analyzeProject_def Let_def failedToAnalyze_def newError_def
          split: sum.splits option.splits)
next
  show "(\<exists>e. readFile h (join h projectPath ''package.json'') = Inl e)
        \<or> (\<exists>content e. readFile h (join h projectPath ''package.json'') = Inr content
                \<and> jsonParse h content = Inl e)
        \<longrightarrow> (\<forall>a. analyzeProject h projectPath = Inr a
              \<longrightarrow> projectName (projectData a) = JStr (base h projectPath)
                \<and> description (projectData a) = JNull \<and> version (projectData a) = JNull
                \<and> author (projectData a) = JNull \<and> license (projectData a) = JNull
                \<and> homepage (projectData a) = JNull \<and> repository (projectData a) = JNull
                \<and> scripts (projectData a) = JObj [] \<and> dependencies (projectData a) = []
                \<and> devDependencies (projectData a) = [])"
  proof (intro impI allI)
    fix a
    assume "(\<exists>e. readFile h (join h projectPath ''package.json'') = Inl e)
        \<or> (\<exists>content e. readFile h (join h projectPath ''package.json'') = Inr content
                \<and> jsonParse h content = Inl e)"
    then have null: "readPackageJson h projectPath = JNull"
      by (auto simp add: readPackageJson_def)
    assume "analyzeProject h projectPath = Inr a"
    from analyze_manifest_unset [OF null this]
    show "projectName (projectData a) = JStr (base h projectPath)
                \<and> description (projectData a) = JNull \<and> version (projectData a) = JNull
                \<and> author (projectData a) = JNull \<and> license (projectData a) = JNull
                \<and> homepage (projectData a) = JNull \<and> repository (projectData a) = JNull
                \<and> scripts (projectData a) = JObj [] \<and> dependencies (projectData a) = []
                \<and> devDependencies (projectData a) = []" .
  qed
qed

theorem analyze_failure_causes_witness:
  "readFile demoHost (join demoHost ''/p'' ''package.json'') = Inr ''{ ''
   \<and> jsonParse demoHost ''{ '' = Inl (Exn ''SyntaxError'' ''Unexpected end of JSON input'')
   \<and> unchanged demoHost ''/p''
   \<and> map_sum id (projectName \<circ> projectData) (analyzeProject demoHost ''/p'') = Inr (JStr ''p'')
   \<and> map_sum id (dependencies \<circ> projectData) (analyzeProject demoHost ''/p'') = Inr []
   \<and> map_sum id (license \<circ> projectData) (analyzeProject demoHost ''/p'') = Inr JNull
   \<and> analyzeProject demoHost ''/missing''
       = Inl (Exn ''Error'' ''Failed to analyze project: Error: Failed to read directory: Error: ENOENT: no such file or directory, /missing'')"
proof -
  have manifest: "readFile demoHost (join demoHost ''/p'' ''package.json'') = Inr ''{ ''"
    and parse: "jsonParse demoHost ''{ '' = Inl (Exn ''SyntaxError'' ''Unexpected end of JSON input'')"
    by (simp_all add: demoHost_def demoReadFile_def demoJsonParse_def joinSlash_def)
  note inst = analyze_failure_causes [of demoHost "''/p''"]
  from inst demo_unchanged [of "''/p''"] demo_scan_p
  obtain a where a: "analyzeProject demoHost ''/p'' = Inr a"
    by (cases "analyzeProject demoHost ''/p''") auto
  from inst manifest parse a
  have "projectName (projectData a) = JStr (base demoHost ''/p'')"
    "dependencies (projectData a) = []" "license (projectData a) = JNull"
    by blast+
  moreover have "base demoHost ''/p'' = ''p''" by (simp add: demoHost_def)
  moreover from analyze_failure_causes [of demoHost "''/missing''"] demo_scan_missing
  have "analyzeProject demoHost ''/missing''
        = Inl (Exn ''Error'' (''Failed to analyze project: ''
                 @ toString (failedToRead (enoent ''/missing''))))"
    by blast
  ultimately show ?thesis
    using a manifest parse demo_unchanged [of "''/p''"]
    by (simp add: failedToRead_def enoent_def newError_def toString_def)
qed

text \<open>
  C5 as stated fails when the second listing fails although the scan succeeded: on a
  host where the project directory is taken away after the scan has read it, the scan
  of \<open>/p\<close> returns its tree and \<open>analyzeProject\<close> fails all the same.
\<close>

theorem analyze_failure_counterexample:
  "getDirectoryStructure vanishingHost ''/p'' 3 0 defaultIgnorePatterns = Inr (Some demoTree)
   \<and> readdirNames vanishingHost ''/p'' = Inl (enoent ''/p'')
   \<and> analyzeProject vanishingHost ''/p''
       = Inl (Exn ''Error'' ''Failed to analyze project: Error: ENOENT: no such file or directory, /p'')"
  by code_simp

section \<open>The root files\<close>

text \<open>
  C10. The \<open>rootFiles\<close> of an analysis are the result of the listing of the project
  root that \<open>analyzeProject\<close> reads for them, as it is, with no ignore pattern applied:
  on a file system that does not change during the call, the names of all entries of
  the root, in the order of the listing the scan read. In the project \<open>/p\<close> they hold
  \<open>node_modules\<close>, which the scan left out of the tree.
\<close>

theorem root_files_unfiltered:
  assumes "analyzeProject h projectPath = Inr a"
  shows "readdirNames h projectPath = Inr (rootFiles (projectData a))
    \<and> (unchanged h projectPath
        \<longrightarrow> (\<exists>entries. readdir h projectPath = Inr entries
               \<and> rootFiles (projectData a) = map name entries))"
proof -
  from analyze_Inr [OF assms] obtain t where
    scan: "getDirectoryStructure h projectPath 3 0 defaultIgnorePatterns = Inr (Some t)"
    and names: "readdirNames h projectPath = Inr (rootFiles (projectData a))"
    by blast
  have "\<exists>entries. readdir h projectPath = Inr entries
               \<and> rootFiles (projectData a) = map name entries"
    if "unchanged h projectPath"
    using unchanged_listing [OF that scan] names by auto
  with names show ?thesis by blast
qed

theorem root_files_unfiltered_witness:
  "unchanged demoHost ''/p''
   \<and> readdir demoHost ''/p''
       = Inr [Dirent ''node_modules'' True, Dirent ''src'' True,
              Dirent ''package.json'' False, Dirent ''a.txt'' False]
   \<and> map_sum id (rootFiles \<circ> projectData) (analyzeProject demoHost ''/p'')
     = Inr [''node_modules'', ''src'', ''package.json'', ''a.txt'']
   \<and> ignored defaultIgnorePatterns ''node_modules''
   \<and> map_sum id (nodeNames \<circ> directoryStructure \<circ> projectData) (analyzeProject demoHost ''/p'')
     = Inr [''p'', ''src'', ''index.ts'', ''lib'', ''util.ts'', ''package.json'', ''a.txt'']"
proof -
  from analyze_both_ok [OF demo_scan_p demo_names(3)] obtain a where
    a: "analyzeProject demoHost ''/p'' = Inr a" by blast
  have listing: "readdir demoHost ''/p''
       = Inr [Dirent ''node_modules'' True, Dirent ''src'' True,
              Dirent ''package.json'' False, Dirent ''a.txt'' False]"
    by (simp add: demoHost_def demoReaddir_def)
  from root_files_unfiltered [OF a] demo_unchanged [of "''/p''"] listing
  have files: "rootFiles (projectData a) = [''node_modules'', ''src'', ''package.json'', ''a.txt'']"
    by auto
  from analyze_Inr [OF a] demo_scan_p have "directoryStructure (projectData a) = demoTree"
    by auto
  then have "nodeNames (directoryStructure (projectData a))
             = [''p'', ''src'', ''index.ts'', ''lib'', ''util.ts'', ''package.json'', ''a.txt'']"
    by (simp add: demoTree_def)
  moreover have "ignored defaultIgnorePatterns ''node_modules''"
    by (simp add: ignored_def defaultIgnorePatterns_def)
  ultimately show ?thesis using a files listing demo_unchanged [of "''/p''"] by simp
qed

section \<open>The Installation section\<close>

lemma installCommand_lines:
  "installCommand technologies
   = concat (map (\<lambda>command. command @ newline) (installLines technologies))"
  by (simp add: installCommand_def installLines_def installPriority_def)

lemma installLines_short: "length (installLines technologies) \<le> 1"
  by (simp add: installLines_def)

lemma installLines_empty:
  "installLines technologies = []
   \<longleftrightarrow> ''Node.js'' \<notin> set technologies \<and> ''Python'' \<notin> set technologies
       \<and> ''Rust'' \<notin> set technologies \<and> ''Go'' \<notin> set technologies"
  by (simp add: installLines_def installPriority_def)

text \<open>
  C6. For every metadata record, the Installation section is its heading followed,
  when a dependency or dev-dependency name is present, by a \<open>bash\<close> code block that
  holds the install command of the first detected technology in the priority order
  Node.js, Python, Rust, Go: one command line, or none when none of the four is
  detected. With no dependency and no dev-dependency name the heading is followed by
  the sentence that tells to clone the repository. The section stands in the README
  between the technologies and the usage section.
\<close>

theorem installation_section_by_priority:
  "installationSection pd =
     ''## '' @ glyphPackage @ '' Installation'' @ newline @ newline
     @ (if dependencies pd \<noteq> [] \<or> devDependencies pd \<noteq> []
        then ''```bash'' @ newline
             @ concat (map (\<lambda>command. command @ newline)
                 (installLines (detectedTechnologies pd)))
             @ ''```'' @ newline @ newline
        else ''Clone the repository and follow the setup instructions.'' @ newline @ newline)
   \<and> length (installLines (detectedTechnologies pd)) \<le> 1
   \<and> (installLines (detectedTechnologies pd) = []
        \<longleftrightarrow> ''Node.js'' \<notin> set (detectedTechnologies pd)
            \<and> ''Python'' \<notin> set (detectedTechnologies pd)
            \<and> ''Rust'' \<notin> set (detectedTechnologies pd)
            \<and> ''Go'' \<notin> set (detectedTechnologies pd))
   \<and> generateReadme h pd =
       (titleSection h pd @ badgesSection h pd @ descriptionSection h pd
        @ technologiesSection pd)
       @ installationSection pd
       @ (usageSection h pd @ structureSection pd @ dependenciesSection pd
          @ devDependenciesSection pd @ licenseSection h pd @ authorSection h pd
          @ linksSection h pd @ footerSection)"
proof (intro conjI)
  show "installationSection pd =
     ''## '' @ glyphPackage @ '' Installation'' @ newline @ newline
     @ (if dependencies pd \<noteq> [] \<or> devDependencies pd \<noteq> []
        then ''```bash'' @ newline
             @ concat (map (\<lambda>command. command @ newline)
                 (installLines (detectedTechnologies pd)))
             @ ''```'' @ newline @ newline
        else ''Clone the repository and follow the setup instructions.'' @ newline @ newline)"
    by (simp add: installationSection_def installCommand_lines)
next
  show "length (installLines (detectedTechnologies pd)) \<le> 1"
    by (rule installLines_short)
next
  show "installLines (detectedTechnologies pd) = []
        \<longleftrightarrow> ''Node.js'' \<notin> set (detectedTechnologies pd)
            \<and> ''Python'' \<notin> set (detectedTechnologies pd)
            \<and> ''Rust'' \<notin> set (detectedTechnologies pd)
            \<and> ''Go'' \<notin> set (detectedTechnologies pd)"
    by (rule installLines_empty)
next
  show "generateReadme h pd =
       (titleSection h pd @ badgesSection h pd @ descriptionSection h pd
        @ technologiesSection pd)
       @ installationSection pd
       @ (usageSection h pd @ structureSection pd @ dependenciesSection pd
          @ devDependenciesSection pd @ licenseSection h pd @ authorSection h pd
          @ linksSection h pd @ footerSection)"
    by (simp add: generateReadme_def)
qed

theorem installation_section_by_priority_witness:
  "installationSection demoData =
     ''## '' @ glyphPackage @ '' Installation'' @ newline @ newline
     @ ''```bash'' @ newline @ ''pip install -r requirements.txt'' @ newline
     @ ''```'' @ newline @ newline
   \<and> installationSection (demoData\<lparr>detectedTechnologies := [''Docker'']\<rparr>) =
     ''## '' @ glyphPackage @ '' Installation'' @ newline @ newline
     @ ''```bash'' @ newline @ ''```'' @ newline @ newline
   \<and> installationSection (demoData\<lparr>dependencies := []\<rparr>) =
     ''## '' @ glyphPackage @ '' Installation'' @ newline @ newline
     @ ''Clone the repository and follow the setup instructions.'' @ newline @ newline"
  using installation_section_by_priority [of demoData demoHost]
    installation_section_by_priority [of "demoData\<lparr>detectedTechnologies := [''Docker'']\<rparr>" demoHost]
    installation_section_by_priority [of "demoData\<lparr>dependencies := []\<rparr>" demoHost]
  by (simp add: demoData_def installLines_def installPriority_def)

section \<open>Failures at the handler\<close>

text \<open>
  C4. When the scan behind \<open>read_project_structure\<close>, the file read behind
  \<open>read_file\<close>, or the analysis behind \<open>analyze_project\<close> and \<open>generate_readme\<close> fails
  with an error, the handler returns a response whose text is \<open>Error: \<close> followed by
  the error's message and whose \<open>isError\<close> flag is set. The handler returns a response
  for every request; the flag is set exactly when the tool call threw, and a flagged
  response always begins with \<open>Error: \<close>.
\<close>

theorem failures_become_error_responses:
  "(getDirectoryStructure h dirPath (case maxDepth of None \<Rightarrow> 3 | Some d \<Rightarrow> d) 0
       defaultIgnorePatterns = Inl e
     \<longrightarrow> handleCallTool h (ReadProjectStructure dirPath maxDepth)
         = \<lparr>responseText = ''Error: '' @ message e, isError = True\<rparr>)
   \<and> (readFile h filePath = Inl e
     \<longrightarrow> handleCallTool h (ReadFile filePath)
         = \<lparr>responseText = ''Error: '' @ message e, isError = True\<rparr>)
   \<and> (analyzeProject h projectPath = Inl e
     \<longrightarrow> handleCallTool h (AnalyzeProject projectPath)
           = \<lparr>responseText = ''Error: '' @ message e, isError = True\<rparr>
       \<and> handleCallTool h (GenerateReadme projectPath)
           = \<lparr>responseText = ''Error: '' @ message e, isError = True\<rparr>)
   \<and> prefix ''Error: '' (''Error: '' @ message e)
   \<and> (\<forall>req. isError (handleCallTool h req) \<longleftrightarrow> (\<exists>thrown. callTool h req = Inl thrown))
   \<and> (\<forall>req. isError (handleCallTool h req)
          \<longrightarrow> prefix ''Error: '' (responseText (handleCallTool h req)))"
proof -
  have flag: "isError (handleCallTool h req) \<longleftrightarrow> (\<exists>thrown. callTool h req = Inl thrown)" for req
    by (cases "callTool h req") (simp_all add: handleCallTool_def)
  have pre: "prefix ''Error: '' (responseText (handleCallTool h req))"
    if "isError (handleCallTool h req)" for req
    using that by (cases "callTool h req") (simp_all add: handleCallTool_def)
  show ?thesis
    using flag pre by (simp add: handleCallTool_def)
qed

theorem failures_become_error_responses_witness:
  "handleCallTool demoHost (ReadFile ''/nope'')
     = \<lparr>responseText = ''Error: ENOENT: no such file or directory, /nope'', isError = True\<rparr>
   \<and> handleCallTool demoHost (ReadProjectStructure ''/missing'' None)
     = \<lparr>responseText = ''Error: Failed to read directory: Error: ENOENT: no such file or directory, /missing'',
        isError = True\<rparr>
   \<and> handleCallTool demoHost (GenerateReadme ''/missing'')
     = \<lparr>responseText = ''Error: Failed to analyze project: Error: Failed to read directory: Error: ENOENT: no such file or directory, /missing'',
        isError = True\<rparr>"
proof -
  have read: "readFile demoHost ''/nope'' = Inl (enoent ''/nope'')"
    by (simp add: demoHost_def demoReadFile_def)
  have scan: "getDirectoryStructure demoHost ''/missing'' (case None of None \<Rightarrow> 3 | Some d \<Rightarrow> d)
                0 defaultIgnorePatterns = Inl (failedToRead (enoent ''/missing''))"
    by (simp add: demo_scan_missing)
  have analyze: "analyzeProject demoHost ''/missing''
                 = Inl (failedToAnalyze (failedToRead (enoent ''/missing'')))"
    by (simp add: analyze_scan_fail [OF demo_scan_missing] failedToAnalyze_def newError_def)
  from failures_become_error_responses [of demoHost "''/missing''" None
         "failedToRead (enoent ''/missing'')" "''/nope''" "''/missing''"] scan
  have a: "handleCallTool demoHost (ReadProjectStructure ''/missing'' None)
        = \<lparr>responseText = ''Error: '' @ message (failedToRead (enoent ''/missing'')), isError = True\<rparr>"
    by blast
  from failures_become_error_responses [of demoHost "''/missing''" None
         "enoent ''/nope''" "''/nope''" "''/missing''"] read
  have b: "handleCallTool demoHost (ReadFile ''/nope'')
        = \<lparr>responseText = ''Error: '' @ message (enoent ''/nope''), isError = True\<rparr>"
    by blast
  from failures_become_error_responses [of demoHost "''/missing''" None
         "failedToAnalyze (failedToRead (enoent ''/missing''))" "''/nope''" "''/missing''"] analyze
  have c: "handleCallTool demoHost (GenerateReadme ''/missing'')
        = \<lparr>responseText = ''Error: '' @ message (failedToAnalyze (failedToRead (enoent ''/missing''))), isError = True\<rparr>"
    by blast
  show ?thesis
    unfolding a b c
    by (simp add: failedToAnalyze_def failedToRead_def enoent_def newError_def toString_def)
qed

end
